theory Spec2Isabelle
  imports Main "HOL-Library.Word"
begin

text \<open>
  A shallow embedding of the parts of the drand node that its specification makes claims
  about: the gRPC client of the network shim, the control listener and client, the public
  service of a node (\<^verbatim>\<open>Setup\<close>, \<^verbatim>\<open>Reshare\<close>, \<^verbatim>\<open>PublicRand\<close>, \<^verbatim>\<open>PublicRandStream\<close>), the
  generate-keypair command, and the beacon engine. Go errors are values of a sum type,
  mutable state is passed explicitly, and the outside world (the network, the clock, the
  standard input, the disk) is a parameter whose effects are recorded in a trace.
\<close>

section \<open>Common data\<close>

type_synonym bytes = "8 word list"

text \<open>Go's \<^verbatim>\<open>strings.Contains(s, substr)\<close>: some suffix of \<open>s\<close> starts with \<open>substr\<close>.\<close>

fun Contains :: "string \<Rightarrow> string \<Rightarrow> bool" where
  "Contains [] sub = (sub = [])"
| "Contains (c # cs) sub = (take (length sub) (c # cs) = sub \<or> Contains cs sub)"

section \<open>The network shim (net/client\_grpc.go)\<close>

subsection \<open>Contexts and deadlines\<close>

text \<open>
  A Go \<^verbatim>\<open>context.Context\<close> is kept by the one thing the shim sets on it: its deadline,
  in nanoseconds (absent for \<^verbatim>\<open>context.Background()\<close>). \<^verbatim>\<open>context.WithDeadline\<close>
  keeps the parent's deadline when that one is earlier.
\<close>

record ctx =
  Deadline :: "int option"

definition Background :: ctx where
  "Background = \<lparr>Deadline = None\<rparr>"

definition WithDeadline :: "ctx \<Rightarrow> int \<Rightarrow> ctx" where
  "WithDeadline parent d =
     (case Deadline parent of
        Some cur \<Rightarrow> if cur < d then parent else parent\<lparr>Deadline := Some d\<rparr>
      | None \<Rightarrow> parent\<lparr>Deadline := Some d\<rparr>)"

text \<open>Durations are nanoseconds, as \<^verbatim>\<open>time.Duration\<close> is.\<close>

definition Second :: int where
  "Second = 1000000000"

definition Minute :: int where
  "Minute = 60 * Second"

definition defaultTimeout :: int where
  "defaultTimeout = 1 * Minute"

subsection \<open>Peers, connections and the observable trace\<close>

record Peer =
  Address :: string
  IsTLS :: bool

text \<open>A connection is the handle that the dial made at a given step of the trace returned.\<close>

datatype conn = ClientConn nat

datatype dial_option = WithInsecure | WithTransportCredentials nat | DialOption nat

datatype rpc =
  PublicRand_rpc | PrivateRand_rpc | Group_rpc | DistKey_rpc
  | Setup_rpc | Reshare_rpc | NewBeacon_rpc | Home_rpc

text \<open>
  What the shim does to the outside world: it dials a target with options, and it invokes
  a method on a connection (possibly the nil one) under a context.
\<close>

datatype event =
  Dialed string "dial_option list"
  | Invoked "conn option" rpc ctx

text \<open>
  The gRPC library and the remote peers are the environment: the wall clock, the error of
  a dial and the outcome of a call, each at a step of the trace.
\<close>

record grpc_env =
  time_Now :: "nat \<Rightarrow> int"
  dial_error :: "nat \<Rightarrow> string \<Rightarrow> string option"
  call_result :: "nat \<Rightarrow> conn option \<Rightarrow> rpc \<Rightarrow> ctx \<Rightarrow> bytes \<Rightarrow> string + bytes"

definition grpc_Dial ::
  "grpc_env \<Rightarrow> string \<Rightarrow> dial_option list \<Rightarrow> event list
    \<Rightarrow> (conn option \<times> string option) \<times> event list" where
  "grpc_Dial env target os tr =
     (case dial_error env (length tr) target of
        None \<Rightarrow> ((Some (ClientConn (length tr)), None), tr @ [Dialed target os])
      | Some e \<Rightarrow> ((None, Some e), tr @ [Dialed target os]))"

definition grpc_Invoke ::
  "grpc_env \<Rightarrow> conn option \<Rightarrow> rpc \<Rightarrow> ctx \<Rightarrow> bytes \<Rightarrow> event list
    \<Rightarrow> (string + bytes) \<times> event list" where
  "grpc_Invoke env c m cx inp tr =
     (call_result env (length tr) c m cx inp, tr @ [Invoked c m cx])"

subsection \<open>The client\<close>

text \<open>
  \<^verbatim>\<open>conns\<close> maps a peer address to its cached connection; the cached pointer may be
  nil, because \<^verbatim>\<open>conn\<close> stores whatever \<^verbatim>\<open>grpc.Dial\<close> returned.
\<close>

record grpcClient =
  conns :: "string \<rightharpoonup> conn option"
  opts :: "dial_option list"
  timeout :: int
  manager :: "nat option"

definition NewGrpcClient :: "dial_option list \<Rightarrow> grpcClient" where
  "NewGrpcClient os =
     \<lparr>conns = Map.empty, opts = os, timeout = defaultTimeout, manager = None\<rparr>"

definition NewGrpcClientFromCertManager :: "nat \<Rightarrow> dial_option list \<Rightarrow> grpcClient" where
  "NewGrpcClientFromCertManager c os = (NewGrpcClient os)\<lparr>manager := Some c\<rparr>"

definition NewGrpcClientWithTimeout :: "int \<Rightarrow> dial_option list \<Rightarrow> grpcClient" where
  "NewGrpcClientWithTimeout t os = (NewGrpcClient os)\<lparr>timeout := t\<rparr>"

definition getTimeoutContext :: "grpc_env \<Rightarrow> grpcClient \<Rightarrow> ctx \<Rightarrow> event list \<Rightarrow> ctx" where
  "getTimeoutContext env g cx tr = WithDeadline cx (time_Now env (length tr) + timeout g)"

definition SetTimeout :: "int \<Rightarrow> grpcClient \<Rightarrow> grpcClient" where
  "SetTimeout p g = g\<lparr>timeout := p\<rparr>"

definition deleteConn :: "Peer \<Rightarrow> grpcClient \<Rightarrow> grpcClient" where
  "deleteConn p g = g\<lparr>conns := (conns g)(Address p := None)\<rparr>"

text \<open>\<^verbatim>\<open>conn\<close>: the cached connection of the peer, or a new dial whose result is cached.\<close>

definition conn_dial_options :: "Peer \<Rightarrow> grpcClient \<Rightarrow> dial_option list" where
  "conn_dial_options p g =
     (if \<not> IsTLS p then opts g @ [WithInsecure]
      else (case manager g of
              Some pool \<Rightarrow> opts g @ [WithTransportCredentials pool]
            | None \<Rightarrow> opts g))"

definition grpcClient_conn ::
  "grpc_env \<Rightarrow> Peer \<Rightarrow> grpcClient \<Rightarrow> event list
    \<Rightarrow> (conn option \<times> string option) \<times> grpcClient \<times> event list" where
  "grpcClient_conn env p g tr =
     (case conns g (Address p) of
        Some c \<Rightarrow> ((c, None), g, tr)
      | None \<Rightarrow>
          (let (r, tr') = grpc_Dial env (Address p) (conn_dial_options p g) tr
           in (r, g\<lparr>conns := (conns g)(Address p \<mapsto> fst r)\<rparr>, tr')))"

type_synonym call_outcome = "(string + bytes) \<times> grpcClient \<times> event list"

definition grpcClient_PublicRand ::
  "grpc_env \<Rightarrow> Peer \<Rightarrow> bytes \<Rightarrow> grpcClient \<Rightarrow> event list \<Rightarrow> call_outcome" where
  "grpcClient_PublicRand env p inp g tr =
     (case grpcClient_conn env p g tr of
        ((c, Some err), g', tr') \<Rightarrow> (Inl err, g', tr')
      | ((c, None), g', tr') \<Rightarrow>
          (let cx = getTimeoutContext env g' Background tr';
               (r, tr'') = grpc_Invoke env c PublicRand_rpc cx inp tr'
           in (r, g', tr'')))"

definition grpcClient_PrivateRand ::
  "grpc_env \<Rightarrow> Peer \<Rightarrow> bytes \<Rightarrow> grpcClient \<Rightarrow> event list \<Rightarrow> call_outcome" where
  "grpcClient_PrivateRand env p inp g tr =
     (case grpcClient_conn env p g tr of
        ((c, Some err), g', tr') \<Rightarrow> (Inl err, g', tr')
      | ((c, None), g', tr') \<Rightarrow>
          (let cx = getTimeoutContext env g' Background tr';
               (r, tr'') = grpc_Invoke env c PrivateRand_rpc cx inp tr'
           in (r, g', tr'')))"

definition grpcClient_Group ::
  "grpc_env \<Rightarrow> Peer \<Rightarrow> bytes \<Rightarrow> grpcClient \<Rightarrow> event list \<Rightarrow> call_outcome" where
  "grpcClient_Group env p inp g tr =
     (case grpcClient_conn env p g tr of
        ((c, Some err), g', tr') \<Rightarrow> (Inl err, g', tr')
      | ((c, None), g', tr') \<Rightarrow>
          (let cx = getTimeoutContext env g' Background tr';
               (r, tr'') = grpc_Invoke env c Group_rpc cx inp tr'
           in (r, g', tr'')))"

text \<open>\<^verbatim>\<open>DistKey\<close> passes \<^verbatim>\<open>context.Background()\<close> itself to the call.\<close>

definition grpcClient_DistKey ::
  "grpc_env \<Rightarrow> Peer \<Rightarrow> bytes \<Rightarrow> grpcClient \<Rightarrow> event list \<Rightarrow> call_outcome" where
  "grpcClient_DistKey env p inp g tr =
     (case grpcClient_conn env p g tr of
        ((c, Some err), g', tr') \<Rightarrow> (Inl err, g', tr')
      | ((c, None), g', tr') \<Rightarrow>
          (let (r, tr'') = grpc_Invoke env c DistKey_rpc Background inp tr'
           in (r, g', tr'')))"

definition grpcClient_Setup ::
  "grpc_env \<Rightarrow> Peer \<Rightarrow> bytes \<Rightarrow> grpcClient \<Rightarrow> event list \<Rightarrow> call_outcome" where
  "grpcClient_Setup env p inp g tr =
     (case grpcClient_conn env p g tr of
        ((c, Some err), g', tr') \<Rightarrow> (Inl err, g', tr')
      | ((c, None), g', tr') \<Rightarrow>
          (let cx = getTimeoutContext env g' Background tr';
               (r, tr'') = grpc_Invoke env c Setup_rpc cx inp tr'
           in (r, g', tr'')))"

definition grpcClient_Reshare ::
  "grpc_env \<Rightarrow> Peer \<Rightarrow> bytes \<Rightarrow> grpcClient \<Rightarrow> event list \<Rightarrow> call_outcome" where
  "grpcClient_Reshare env p inp g tr =
     (case grpcClient_conn env p g tr of
        ((c, Some err), g', tr') \<Rightarrow> (Inl err, g', tr')
      | ((c, None), g', tr') \<Rightarrow>
          (let cx = getTimeoutContext env g' Background tr';
               (r, tr'') = grpc_Invoke env c Reshare_rpc cx inp tr'
           in (r, g', tr'')))"

text \<open>The closure \<^verbatim>\<open>do\<close> of \<^verbatim>\<open>NewBeacon\<close>: one attempt.\<close>

definition NewBeacon_do ::
  "grpc_env \<Rightarrow> Peer \<Rightarrow> bytes \<Rightarrow> grpcClient \<Rightarrow> event list \<Rightarrow> call_outcome" where
  "NewBeacon_do env p inp g tr =
     (case grpcClient_conn env p g tr of
        ((c, Some err), g', tr') \<Rightarrow> (Inl err, g', tr')
      | ((c, None), g', tr') \<Rightarrow>
          (let cx = getTimeoutContext env g' Background tr';
               (r, tr'') = grpc_Invoke env c NewBeacon_rpc cx inp tr'
           in (r, g', tr'')))"

definition grpcClient_NewBeacon ::
  "grpc_env \<Rightarrow> Peer \<Rightarrow> bytes \<Rightarrow> grpcClient \<Rightarrow> event list \<Rightarrow> call_outcome" where
  "grpcClient_NewBeacon env p inp g tr =
     (case NewBeacon_do env p inp g tr of
        (Inl err, g', tr') \<Rightarrow>
          if Contains err ''connection error''
          then NewBeacon_do env p inp (deleteConn p g') tr'
          else (Inl err, g', tr')
      | (Inr resp, g', tr') \<Rightarrow> (Inr resp, g', tr'))"

definition grpcClient_Home ::
  "grpc_env \<Rightarrow> Peer \<Rightarrow> bytes \<Rightarrow> grpcClient \<Rightarrow> event list \<Rightarrow> call_outcome" where
  "grpcClient_Home env p inp g tr =
     (case grpcClient_conn env p g tr of
        ((c, Some err), g', tr') \<Rightarrow> (Inl err, g', tr')
      | ((c, None), g', tr') \<Rightarrow>
          (let cx = getTimeoutContext env g' Background tr';
               (r, tr'') = grpc_Invoke env c Home_rpc cx inp tr'
           in (r, g', tr'')))"

section \<open>The control plane (net/control.go)\<close>








section \<open>Beacons and the chain store\<close>

record Beacon =
  Round :: nat
  PreviousRound :: nat
  PreviousSig :: bytes
  Signature :: bytes

datatype store_error = NotFound | Empty | Conflict

text \<open>
  Modelled from the spec: the chain store (the repository's beacon store is not among the
  sources). It is an ordered mapping from round to beacon, kept here as the list of its
  beacons in increasing round order; \<open>get(round) \<rightarrow> Beacon | NotFound\<close>,
  \<open>last() \<rightarrow> Beacon | Empty\<close>, and \<open>put(b)\<close> fails if the round is already present
  with a different signature and is idempotent on an equal value.
\<close>

type_synonym store = "Beacon list"

fun store_Get :: "store \<Rightarrow> nat \<Rightarrow> store_error + Beacon" where
  "store_Get [] r = Inl NotFound"
| "store_Get (b # bs) r = (if Round b = r then Inr b else store_Get bs r)"

definition store_Last :: "store \<Rightarrow> store_error + Beacon" where
  "store_Last s = (if s = [] then Inl Empty else Inr (last s))"

fun store_Put :: "store \<Rightarrow> Beacon \<Rightarrow> store_error + store" where
  "store_Put [] b = Inr [b]"
| "store_Put (x # xs) b =
     (if Round b < Round x then Inr (b # x # xs)
      else if Round b = Round x
           then (if Signature x = Signature b then Inr (x # xs) else Inl Conflict)
           else (case store_Put xs b of Inl e \<Rightarrow> Inl e | Inr xs' \<Rightarrow> Inr (x # xs')))"

definition store_Len :: "store \<Rightarrow> nat" where
  "store_Len s = length s"

text \<open>
  Modelled from the spec: the randomness delivered to clients is \<open>H'(signature)\<close>; the hash
  \<open>H'\<close> is a parameter.
\<close>

definition Randomness :: "(bytes \<Rightarrow> bytes) \<Rightarrow> Beacon \<Rightarrow> bytes" where
  "Randomness h' b = h' (Signature b)"

section \<open>The public service of a node (core/drand\_public.go)\<close>

datatype core_error =
  ErrDkgFinished
  | ErrNoDkgRunning
  | ErrReshareNotInitialised string
  | ErrIncompatibleHashes
  | ErrNoDkgSetup
  | ErrBeaconNotStarted
  | ErrCantRetrieveBeacon store_error

text \<open>The DKG handler is kept by the packets handed to its \<^verbatim>\<open>Process\<close>, in order.\<close>

record DkgHandler =
  dkg_processed :: "bytes list"

definition dkg_Process :: "bytes \<Rightarrow> DkgHandler \<Rightarrow> DkgHandler" where
  "dkg_Process pkt h = h\<lparr>dkg_processed := dkg_processed h @ [pkt]\<rparr>"

text \<open>The beacon handler, as far as the public service reads it: its store.\<close>

record BeaconHandler =
  Store :: store

text \<open>A server stream of \<^verbatim>\<open>PublicRandStream\<close>: its identity and the peer of its context.\<close>

record ServerStream =
  stream_id :: nat
  stream_peer :: "string option"

text \<open>
  Modelled from the spec: the callback registry is a mapping from subscriber id to a
  delivery function. The only delivery function the sources register is the closure of
  \<^verbatim>\<open>PublicRandStream\<close>, which is determined by its stream; the registry is the
  association list from subscriber id to that stream.
\<close>

type_synonym registry = "(string \<times> ServerStream) list"

definition DelCallback :: "string \<Rightarrow> registry \<Rightarrow> registry" where
  "DelCallback ident reg = filter (\<lambda>e. fst e \<noteq> ident) reg"

definition AddCallback :: "string \<Rightarrow> ServerStream \<Rightarrow> registry \<Rightarrow> registry" where
  "AddCallback ident s reg = DelCallback ident reg @ [(ident, s)]"

record Drand =
  priv_Addr :: string
  dkgDone :: bool
  dkg :: "DkgHandler option"
  nextGroupHash :: string
  nextConf :: nat
  nextFirstReceived :: bool
  nextOldPresent :: bool
  startedDKG :: "nat list"
  beacon :: "BeaconHandler option"
  callbacks :: registry

record SetupPacket =
  setup_Dkg :: bytes

definition Drand_Setup :: "SetupPacket \<Rightarrow> Drand \<Rightarrow> (core_error + unit) \<times> Drand" where
  "Drand_Setup inp d =
     (if dkgDone d then (Inl ErrDkgFinished, d)
      else (case dkg d of
              None \<Rightarrow> (Inl ErrNoDkgRunning, d)
            | Some h \<Rightarrow> (Inr (), d\<lparr>dkg := Some (dkg_Process (setup_Dkg inp) h)\<rparr>)))"

record ResharePacket =
  GroupHash :: string
  Dkg :: "bytes option"

text \<open>
  \<^verbatim>\<open>Reshare\<close>. The goroutine \<^verbatim>\<open>go d.StartDKG(d.nextConf)\<close> needs the lock that
  \<^verbatim>\<open>Reshare\<close> holds until it returns, so within the call it is only recorded as started.
\<close>

definition Drand_Reshare :: "ResharePacket \<Rightarrow> Drand \<Rightarrow> (core_error + unit) \<times> Drand" where
  "Drand_Reshare inp d =
     (if nextGroupHash d = [] then (Inl (ErrReshareNotInitialised (priv_Addr d)), d)
      else if GroupHash inp \<noteq> nextGroupHash d then (Inl ErrIncompatibleHashes, d)
      else
        (let d1 = (if \<not> nextFirstReceived d \<and> nextOldPresent d
                   then d\<lparr>nextFirstReceived := True,
                          startedDKG := startedDKG d @ [nextConf d]\<rparr>
                   else d)
         in case dkg d1 of
              None \<Rightarrow> (Inl ErrNoDkgSetup, d1)
            | Some h \<Rightarrow>
                (let d2 = d1\<lparr>nextFirstReceived := True\<rparr>
                 in case Dkg inp of
                      Some pkt \<Rightarrow> (Inr (), d2\<lparr>dkg := Some (dkg_Process pkt h)\<rparr>)
                    | None \<Rightarrow> (Inr (), d2))))"

record PublicRandRequest =
  req_Round :: nat

record PublicRandResponse =
  resp_Round :: nat
  resp_PreviousRound :: nat
  resp_PreviousSignature :: bytes
  resp_Signature :: bytes
  resp_Randomness :: bytes

definition beacon_response :: "(bytes \<Rightarrow> bytes) \<Rightarrow> Beacon \<Rightarrow> PublicRandResponse" where
  "beacon_response h' b =
     \<lparr>resp_Round = Round b, resp_PreviousRound = PreviousRound b,
      resp_PreviousSignature = PreviousSig b, resp_Signature = Signature b,
      resp_Randomness = Randomness h' b\<rparr>"


subsection \<open>Streaming subscribers\<close>

text \<open>
  What the streams have seen: every \<^verbatim>\<open>stream.Send\<close> made (the stream, the message
  and the error it returned, if any), and the errors put on the \<^verbatim>\<open>done\<close> channels.
  The error of a send is the environment's answer at that step.
\<close>

record stream_world =
  sent :: "(nat \<times> PublicRandResponse \<times> string option) list"
  done_chan :: "(nat \<times> string) list"

type_synonym send_env = "nat \<Rightarrow> nat \<Rightarrow> PublicRandResponse \<Rightarrow> string option"

definition stream_Send ::
  "send_env \<Rightarrow> ServerStream \<Rightarrow> PublicRandResponse \<Rightarrow> stream_world
    \<Rightarrow> string option \<times> stream_world" where
  "stream_Send env s msg w =
     (let e = env (length (sent w)) (stream_id s) msg
      in (e, w\<lparr>sent := sent w @ [(stream_id s, msg, e)]\<rparr>))"

text \<open>
  The closure that \<^verbatim>\<open>PublicRandStream\<close> registers under \<open>addr\<close>: it sends the
  beacon on the stream, and on an error it drops the callback and hands the error to
  \<^verbatim>\<open>done\<close>.
\<close>

definition stream_callback ::
  "send_env \<Rightarrow> (bytes \<Rightarrow> bytes) \<Rightarrow> string \<Rightarrow> ServerStream \<Rightarrow> Beacon
    \<Rightarrow> Drand \<times> stream_world \<Rightarrow> Drand \<times> stream_world" where
  "stream_callback env h' addr s b st =
     (case stream_Send env s (beacon_response h' b) (snd st) of
        (None, w') \<Rightarrow> (fst st, w')
      | (Some err, w') \<Rightarrow>
          ((fst st)\<lparr>callbacks := DelCallback addr (callbacks (fst st))\<rparr>,
           w'\<lparr>done_chan := done_chan w' @ [(stream_id s, err)]\<rparr>))"

text \<open>
  \<^verbatim>\<open>PublicRandStream\<close> up to the point where it waits on \<^verbatim>\<open>done\<close>: it reads the
  peer of the stream's context (a nil peer is a nil dereference, the left summand) and
  registers the callback under the peer's address. The call then returns the first
  error put on its \<^verbatim>\<open>done\<close> channel.
\<close>

definition Drand_PublicRandStream :: "PublicRandRequest \<Rightarrow> ServerStream \<Rightarrow> Drand \<Rightarrow> unit + Drand" where
  "Drand_PublicRandStream req s d =
     (case stream_peer s of
        None \<Rightarrow> Inl ()
      | Some addr \<Rightarrow> Inr (d\<lparr>callbacks := AddCallback addr s (callbacks d)\<rparr>))"

definition PublicRandStream_result :: "ServerStream \<Rightarrow> stream_world \<Rightarrow> string option" where
  "PublicRandStream_result s w = map_of (done_chan w) (stream_id s)"

text \<open>
  Modelled from the spec: the registry is invoked synchronously after each successful
  put: every subscriber registered at that moment gets the new beacon. A subscriber
  dropped before its turn is not invoked.
\<close>

definition notify_step ::
  "send_env \<Rightarrow> (bytes \<Rightarrow> bytes) \<Rightarrow> Beacon \<Rightarrow> string \<times> ServerStream
    \<Rightarrow> Drand \<times> stream_world \<Rightarrow> Drand \<times> stream_world" where
  "notify_step env h' b e st =
     (if map_of (callbacks (fst st)) (fst e) = Some (snd e)
      then stream_callback env h' (fst e) (snd e) b st
      else st)"

definition notify_callbacks ::
  "send_env \<Rightarrow> (bytes \<Rightarrow> bytes) \<Rightarrow> Beacon \<Rightarrow> Drand \<times> stream_world \<Rightarrow> Drand \<times> stream_world" where
  "notify_callbacks env h' b st = fold (notify_step env h' b) (callbacks (fst st)) st"

text \<open>What happens to a node's registry over time: a beacon is stored, or a stream is opened.\<close>

datatype registry_event = BeaconStored Beacon | StreamOpened ServerStream

fun registry_run ::
  "send_env \<Rightarrow> (bytes \<Rightarrow> bytes) \<Rightarrow> registry_event list \<Rightarrow> Drand \<times> stream_world
    \<Rightarrow> Drand \<times> stream_world" where
  "registry_run env h' [] st = st"
| "registry_run env h' (BeaconStored b # evs) st =
     registry_run env h' evs (notify_callbacks env h' b st)"
| "registry_run env h' (StreamOpened s # evs) st =
     (case Drand_PublicRandStream \<lparr>req_Round = 0\<rparr> s (fst st) of
        Inl u \<Rightarrow> registry_run env h' evs st
      | Inr d' \<Rightarrow> registry_run env h' evs (d', snd st))"

definition sends_to :: "nat \<Rightarrow> stream_world \<Rightarrow> (nat \<times> PublicRandResponse \<times> string option) list" where
  "sends_to i w = filter (\<lambda>e. fst e = i) (sent w)"

definition opened_ids :: "registry_event list \<Rightarrow> nat list" where
  "opened_ids evs = concat (map (\<lambda>ev. case ev of BeaconStored b \<Rightarrow> [] | StreamOpened s \<Rightarrow> [stream_id s]) evs)"

definition registered_ids :: "Drand \<Rightarrow> nat list" where
  "registered_ids d = map (\<lambda>e. stream_id (snd e)) (callbacks d)"

section \<open>The generate-keypair command\<close>

definition defaultPort :: string where
  "defaultPort = ''8080''"

definition is_digit :: "char \<Rightarrow> bool" where
  "is_digit c = (c \<in> set ''0123456789'')"

text \<open>
  \<^verbatim>\<open>strconv.Atoi\<close> succeeds on an optional sign followed by decimal digits that fit an
  \<^verbatim>\<open>int\<close>; \<^verbatim>\<open>askPort\<close> only uses its answer for strings of fewer than five
  bytes, which always fit.
\<close>

definition Atoi_ok :: "string \<Rightarrow> bool" where
  "Atoi_ok s =
     (case s of
        [] \<Rightarrow> False
      | c # cs \<Rightarrow>
          if c = CHR ''+'' \<or> c = CHR ''-'' then cs \<noteq> [] \<and> list_all is_digit cs
          else list_all is_digit (c # cs))"

text \<open>
  \<^verbatim>\<open>askPort\<close> reads the standard input until it has a port. The input is the list of
  the results of the successive \<^verbatim>\<open>fmt.Scanf\<close> calls (an error, or the word read).
  When the input is used up the loop never returns: the result is \<open>None\<close>.
\<close>

fun askPort :: "(string + string) list \<Rightarrow> string option" where
  "askPort [] = None"
| "askPort (Inl err # rest) = askPort rest"
| "askPort (Inr port # rest) =
     (if port = [] then Some defaultPort
      else if length port > 2 \<and> length port < 5 \<and> Atoi_ok port then Some port
      else askPort rest)"

text \<open>The regular expression \<^verbatim>\<open>[:][0-9]+$\<close>: the text ends with a colon and digits.\<close>

definition validID :: "string \<Rightarrow> bool" where
  "validID addr =
     (takeWhile is_digit (rev addr) \<noteq> [] \<and>
      (case dropWhile is_digit (rev addr) of [] \<Rightarrow> False | c # cs \<Rightarrow> c = CHR '':''))"

record Pair =
  pair_Addr :: string
  pair_TLS :: bool
  pair_Key :: nat

record cli_context =
  args :: "string list"
  flag_tls_disable :: bool
  flag_folder :: string
  flag_verbose_set :: bool
  flag_listen :: string
  flag_control :: string
  flag_tls_cert :: "string option"
  flag_tls_key :: "string option"
  flag_certs_dir :: "string option"

record Config =
  configFolder :: string
  logDebug :: bool
  listenAddr :: string
  controlPort :: string
  insecure :: bool
  certPath :: string
  keyPath :: string
  trustedCerts :: "string list"

text \<open>
  The environment of the command: the standard input, the key generator, the directory
  listing, the defaults of \<^verbatim>\<open>core.NewConfig\<close>, the key store on a disk of type
  \<open>'fs\<close> (\<^verbatim>\<open>LoadKeyPair\<close> and \<^verbatim>\<open>SaveKeyPair\<close> of the file store of a folder; the
  file store itself is not among the sources and \<^verbatim>\<open>key.NewFileStore\<close> is taken to
  only name the folder), and the failures of \<^verbatim>\<open>filepath.Abs\<close> and of the TOML
  encoder.
\<close>

record 'fs keygen_env =
  scans :: "(string + string) list"
  NewKeyPair :: "string \<Rightarrow> Pair"
  NewTLSKeyPair :: "string \<Rightarrow> Pair"
  fs_Files :: "string \<Rightarrow> string + string list"
  default_Config :: Config
  LoadKeyPair :: "string \<Rightarrow> 'fs \<Rightarrow> string + Pair"
  SaveKeyPair :: "string \<Rightarrow> Pair \<Rightarrow> 'fs \<Rightarrow> string option \<times> 'fs"
  abs_error :: "string \<Rightarrow> string option"
  toml_error :: "Pair \<Rightarrow> string option"

text \<open>\<^verbatim>\<open>contextToConfig\<close>; the left summand is a panic.\<close>

definition contextToConfig :: "'fs keygen_env \<Rightarrow> cli_context \<Rightarrow> unit + Config" where
  "contextToConfig env c =
     (let c1 = (default_Config env)\<lparr>logDebug := flag_verbose_set c\<rparr>;
          c2 = (if flag_listen c \<noteq> [] then c1\<lparr>listenAddr := flag_listen c\<rparr> else c1);
          c3 = (if flag_control c \<noteq> [] then c2\<lparr>controlPort := flag_control c\<rparr> else c2);
          c4 = c3\<lparr>configFolder := flag_folder c\<rparr>
      in if flag_tls_disable c \<and> (flag_tls_cert c \<noteq> None \<or> flag_tls_key c \<noteq> None) then Inl ()
         else
           (let c5 = (if flag_tls_disable c then c4\<lparr>insecure := True\<rparr>
                      else c4\<lparr>certPath := (case flag_tls_cert c of None \<Rightarrow> [] | Some x \<Rightarrow> x),
                              keyPath := (case flag_tls_key c of None \<Rightarrow> [] | Some x \<Rightarrow> x)\<rparr>)
            in case flag_certs_dir c of
                 None \<Rightarrow> Inr c5
               | Some dir \<Rightarrow>
                   (case fs_Files env dir of
                      Inl err \<Rightarrow> Inl ()
                    | Inr paths \<Rightarrow> Inr (c5\<lparr>trustedCerts := paths\<rparr>))))"

text \<open>
  How a command ends: it returns (with its error, if any), it exits through
  \<^verbatim>\<open>fatal\<close>, it panics, or it never returns.
\<close>

datatype cmd_end = Returned "string option" | Exited string | Panicked | NeverReturns

definition keygenCmd :: "'fs keygen_env \<Rightarrow> cli_context \<Rightarrow> 'fs \<Rightarrow> cmd_end \<times> 'fs" where
  "keygenCmd env c disk =
     (case args c of
        [] \<Rightarrow> (Exited ''Missing drand address in argument. Abort.'', disk)
      | first # others \<Rightarrow>
          (case (if validID first then Some first
                 else (case askPort (scans env) of
                         None \<Rightarrow> None
                       | Some port \<Rightarrow> Some (first @ '':'' @ port))) of
             None \<Rightarrow> (NeverReturns, disk)
           | Some addr \<Rightarrow>
               (let priv = (if flag_tls_disable c then NewKeyPair env addr
                            else NewTLSKeyPair env addr)
                in case contextToConfig env c of
                     Inl u \<Rightarrow> (Panicked, disk)
                   | Inr config \<Rightarrow>
                       (case LoadKeyPair env (configFolder config) disk of
                          Inr present \<Rightarrow> (Returned None, disk)
                        | Inl err \<Rightarrow>
                            (case SaveKeyPair env (configFolder config) priv disk of
                               (Some serr, disk') \<Rightarrow> (Exited ''could not save key: '', disk')
                             | (None, disk') \<Rightarrow>
                                 (case abs_error env (configFolder config) of
                                    Some aerr \<Rightarrow> (Exited ''err getting full path: '', disk')
                                  | None \<Rightarrow>
                                      (case toml_error env priv of
                                         Some terr \<Rightarrow> (Panicked, disk')
                                       | None \<Rightarrow> (Returned None, disk'))))))))"

section \<open>The beacon engine\<close>

text \<open>
  The handler of the beacon package is not among the sources (its test is). Everything in
  this section but the test's callback is modelled from the spec; the threshold
  signature scheme is a parameter, as the spec assumes it.
\<close>

text \<open>
  Modelled from the spec: the group (the key package is not among the sources), with its
  nodes in index order, its threshold, period, genesis time and seed, and the
  distributed public key that the DKG adds.
\<close>

record Group =
  Nodes :: "string list"
  Threshold :: nat
  Period :: int
  GenesisTime :: int
  GenesisSeed :: bytes
  DistPublic :: nat

text \<open>
  Modelled from the spec: the scheme (the signature primitive is an external
  collaborator): the round message \<open>H(previous_sig \<parallel> previous_round \<parallel> round)\<close>, the partial
  signature of a share, the verification of a partial at an index, the recovery of the
  full signature from partials, and the verification of a recovered signature under the
  distributed public key.
\<close>

record scheme =
  Message :: "bytes \<Rightarrow> nat \<Rightarrow> nat \<Rightarrow> bytes"
  Sign :: "nat \<Rightarrow> bytes \<Rightarrow> bytes"
  VerifyPartial :: "nat \<Rightarrow> nat \<Rightarrow> bytes \<Rightarrow> bytes \<Rightarrow> bool"
  Recover :: "nat \<Rightarrow> bytes \<Rightarrow> (nat \<times> bytes) list \<Rightarrow> nat \<Rightarrow> bytes option"
  VerifyRecovered :: "nat \<Rightarrow> bytes \<Rightarrow> bytes \<Rightarrow> bool"

text \<open>
  The callback of the tests (beacon/beacon\_test.go, \<^verbatim>\<open>myCallBack\<close>): it rebuilds the
  message of the beacon and checks the signature under the distributed public key; the
  value is whether \<^verbatim>\<open>require.NoError\<close> passes.
\<close>

definition myCallBack :: "scheme \<Rightarrow> nat \<Rightarrow> Beacon \<Rightarrow> bool" where
  "myCallBack sch dpublic b =
     VerifyRecovered sch dpublic (Message sch (PreviousSig b) (PreviousRound b) (Round b))
       (Signature b)"

subsection \<open>The round clock\<close>

text \<open>
  Modelled from the spec: \<open>round(t) = max(0, \<lfloor>(t - genesis_time) / period\<rfloor> + 1)\<close>, where
  0 means pre-genesis. Times are Unix seconds and the division rounds down.
\<close>

definition round_at :: "int \<Rightarrow> int \<Rightarrow> int \<Rightarrow> nat" where
  "round_at genesis period t = nat (max 0 ((t - genesis) div period + 1))"

text \<open>
  Modelled from the spec: the clock's \<open>current_round()\<close> and \<open>next_round()\<close> give a round
  and its start time; round \<open>r\<close> starts \<open>r - 1\<close> periods after the genesis time.
\<close>

definition round_start_time :: "int \<Rightarrow> int \<Rightarrow> nat \<Rightarrow> int" where
  "round_start_time genesis period r = genesis + (int r - 1) * period"

definition current_round :: "Group \<Rightarrow> int \<Rightarrow> nat \<times> int" where
  "current_round g t =
     (let r = round_at (GenesisTime g) (Period g) t
      in (r, round_start_time (GenesisTime g) (Period g) r))"

definition next_round :: "Group \<Rightarrow> int \<Rightarrow> nat \<times> int" where
  "next_round g t =
     (let r = round_at (GenesisTime g) (Period g) t + 1
      in (r, round_start_time (GenesisTime g) (Period g) r))"

subsection \<open>The partial cache\<close>

text \<open>
  Modelled from the spec: a mapping from round to the set of \<open>(index, partial_sig)\<close>;
  \<open>add\<close> rejects a duplicate index and rejects when the threshold is already reached;
  rounds older than \<open>last_stored_round - K\<close> are purged.
\<close>

type_synonym cache = "nat \<Rightarrow> (nat \<times> bytes) list"

definition cache_K :: nat where
  "cache_K = 3"

definition cache_add :: "nat \<Rightarrow> cache \<Rightarrow> nat \<Rightarrow> nat \<Rightarrow> bytes \<Rightarrow> cache" where
  "cache_add thr c r i sg =
     (if i \<in> set (map fst (c r)) \<or> thr \<le> length (c r) then c
      else c(r := c r @ [(i, sg)]))"

definition cache_count :: "cache \<Rightarrow> nat \<Rightarrow> nat" where
  "cache_count c r = length (c r)"

definition cache_evict :: "nat \<Rightarrow> cache \<Rightarrow> cache" where
  "cache_evict last_stored c = (\<lambda>r. if r + cache_K < last_stored then [] else c r)"

subsection \<open>The aggregator\<close>

text \<open>
  Modelled from the spec: the states of the handler, \<open>Idle\<close>, \<open>Waiting(genesis_time)\<close>,
  \<open>Running\<close>, \<open>CatchingUp\<close> and \<open>Stopped\<close>; the packet that carries a partial signature
  (with the index of its signer; the partial is absent in the leader's packet during a
  resharing); and the handler: its state, group, index and share, its store and partial
  cache, the round of its last tick, and the packets it has broadcast.
\<close>

datatype agg_state = Idle | Waiting int | Running | CatchingUp | Stopped

record BeaconPacket =
  bp_round :: nat
  bp_previous_round :: nat
  bp_previous_sig :: bytes
  bp_index :: nat
  bp_partial_sig :: "bytes option"

record Aggregator =
  agg_state :: agg_state
  agg_group :: Group
  agg_index :: nat
  agg_share :: nat
  agg_store :: store
  agg_cache :: cache
  agg_round :: nat
  agg_broadcast :: "BeaconPacket list"

text \<open>
  Modelled from the spec: the head is \<open>last()\<close> of the store; before any beacon it is the
  genesis (\<open>previous_sig = genesis_seed\<close>, \<open>previous_round = 0\<close> for round 1).
\<close>

definition agg_head :: "Aggregator \<Rightarrow> nat \<times> bytes" where
  "agg_head h =
     (case store_Last (agg_store h) of
        Inr b \<Rightarrow> (Round b, Signature b)
      | Inl e \<Rightarrow> (0, GenesisSeed (agg_group h)))"

text \<open>
  Modelled from the spec (4.F, step 4): when the threshold is reached for round \<open>r\<close>, the
  full signature is recovered, verified against the distributed public key, and only
  then put in the store; a storage error stops the handler.
\<close>

definition try_recover :: "scheme \<Rightarrow> Aggregator \<Rightarrow> nat \<Rightarrow> Aggregator" where
  "try_recover sch h r =
     (if Threshold (agg_group h) \<le> cache_count (agg_cache h) r
      then
        (let pr = fst (agg_head h); ps = snd (agg_head h);
             msg = Message sch ps pr r
         in case Recover sch (DistPublic (agg_group h)) msg (agg_cache h r)
                   (Threshold (agg_group h)) of
              None \<Rightarrow> h
            | Some sg \<Rightarrow>
                if VerifyRecovered sch (DistPublic (agg_group h)) msg sg
                then (case store_Put (agg_store h)
                             \<lparr>Round = r, PreviousRound = pr, PreviousSig = ps, Signature = sg\<rparr> of
                        Inl e \<Rightarrow> h\<lparr>agg_state := Stopped\<rparr>
                      | Inr s' \<Rightarrow> h\<lparr>agg_store := s', agg_cache := cache_evict r (agg_cache h)\<rparr>)
                else h)
      else h)"

text \<open>
  Modelled from the spec (4.F, steps 2 and 3): sign the round message, add the own
  partial to the cache and broadcast it.
\<close>

definition agg_sign :: "scheme \<Rightarrow> Aggregator \<Rightarrow> nat \<Rightarrow> Aggregator" where
  "agg_sign sch h r =
     (let pr = fst (agg_head h); ps = snd (agg_head h);
          own = Sign sch (agg_share h) (Message sch ps pr r)
      in try_recover sch
           (h\<lparr>agg_cache := cache_add (Threshold (agg_group h)) (agg_cache h) r (agg_index h) own,
              agg_broadcast := agg_broadcast h @
                [\<lparr>bp_round = r, bp_previous_round = pr, bp_previous_sig = ps,
                  bp_index = agg_index h, bp_partial_sig = Some own\<rparr>]\<rparr>)
           r)"

text \<open>
  Modelled from the spec (4.F, step 1): a tick for a round beyond the head's successor
  starts a catch-up; any other tick is signed for.
\<close>

definition on_tick :: "scheme \<Rightarrow> Aggregator \<Rightarrow> nat \<Rightarrow> Aggregator" where
  "on_tick sch h r =
     (if fst (agg_head h) + 1 < r then h\<lparr>agg_state := CatchingUp, agg_round := r\<rparr>
      else agg_sign sch (h\<lparr>agg_state := Running, agg_round := r\<rparr>) r)"

text \<open>
  Modelled from the spec (4.D, 4.F): the clock emits a tick at each round start time, so
  none before the genesis time; a waiting handler starts running at its first tick.
\<close>

definition on_clock :: "scheme \<Rightarrow> Aggregator \<Rightarrow> int \<Rightarrow> Aggregator" where
  "on_clock sch h t =
     (case agg_state h of
        Waiting genesis \<Rightarrow>
          if t < genesis then h
          else on_tick sch h (fst (current_round (agg_group h) t))
      | Running \<Rightarrow>
          if agg_round h < fst (current_round (agg_group h) t)
          then on_tick sch h (fst (current_round (agg_group h) t))
          else h
      | Idle \<Rightarrow> h
      | CatchingUp \<Rightarrow> h
      | Stopped \<Rightarrow> h)"

text \<open>
  Modelled from the spec (4.F, step 4 and the edge cases): a partial is validated (its
  round, its previous round and signature against the head, its index in the group, its
  signature at that index) and added to the cache; a packet without a partial is not
  verified; a partial for a stored round is ignored.
\<close>

definition on_partial :: "scheme \<Rightarrow> Aggregator \<Rightarrow> BeaconPacket \<Rightarrow> Aggregator" where
  "on_partial sch h pkt =
     (if agg_state h \<noteq> Running then h
      else
        (case bp_partial_sig pkt of
           None \<Rightarrow> h
         | Some sg \<Rightarrow>
             (let pr = fst (agg_head h); ps = snd (agg_head h); r = agg_round h
              in if bp_round pkt = r \<and> pr < r \<and> bp_previous_round pkt = pr
                    \<and> bp_previous_sig pkt = ps
                    \<and> bp_index pkt < length (Nodes (agg_group h))
                    \<and> VerifyPartial sch (DistPublic (agg_group h)) (bp_index pkt)
                         (Message sch ps pr r) sg
                 then try_recover sch
                        (h\<lparr>agg_cache := cache_add (Threshold (agg_group h)) (agg_cache h) r
                                           (bp_index pkt) sg\<rparr>)
                        r
                 else h)))"

text \<open>
  Modelled from the spec (4.G): each received beacon is verified against the distributed
  public key and against the local head, then put; a failed verification ends the sync,
  which also ends when the head reaches the target round.
\<close>

fun sync_chain :: "scheme \<Rightarrow> nat \<Rightarrow> Beacon list \<Rightarrow> Aggregator \<Rightarrow> Aggregator" where
  "sync_chain sch target [] h = h"
| "sync_chain sch target (b # bs) h =
     (if target \<le> fst (agg_head h) then h
      else if myCallBack sch (DistPublic (agg_group h)) b
              \<and> PreviousRound b = fst (agg_head h) \<and> PreviousSig b = snd (agg_head h)
           then (case store_Put (agg_store h) b of
                   Inl e \<Rightarrow> h\<lparr>agg_state := Stopped\<rparr>
                 | Inr s' \<Rightarrow> sync_chain sch target bs (h\<lparr>agg_store := s'\<rparr>))
           else h)"

text \<open>
  Modelled from the spec (4.F, step 1): the tick that started the catch-up is evaluated
  again once the sync is over.
\<close>

definition on_sync :: "scheme \<Rightarrow> Aggregator \<Rightarrow> nat \<Rightarrow> Beacon list \<Rightarrow> Aggregator" where
  "on_sync sch h target bs =
     (if agg_state h \<noteq> CatchingUp then h
      else
        (let h' = sync_chain sch target bs h
         in if agg_state h' = Stopped then h'
            else if 0 < agg_round h' then agg_sign sch (h'\<lparr>agg_state := Running\<rparr>) (agg_round h')
            else h'\<lparr>agg_state := Running\<rparr>))"

text \<open>
  Modelled from the spec (4.F, inputs): \<open>start()\<close>, \<open>catchup()\<close> and \<open>stop()\<close>, a reading of
  the injected clock, a packet of a peer, and the beacons that a peer streams during a
  sync towards a target round.
\<close>

datatype agg_input =
  Start | Catchup | Stop | ClockAt int | Receive BeaconPacket | SyncFrom nat "Beacon list"

fun agg_step :: "scheme \<Rightarrow> Aggregator \<Rightarrow> agg_input \<Rightarrow> Aggregator" where
  "agg_step sch h Start =
     (if agg_state h = Idle then h\<lparr>agg_state := Waiting (GenesisTime (agg_group h))\<rparr> else h)"
| "agg_step sch h Catchup =
     (if agg_state h = Idle then h\<lparr>agg_state := CatchingUp\<rparr> else h)"
| "agg_step sch h Stop = h\<lparr>agg_state := Stopped\<rparr>"
| "agg_step sch h (ClockAt t) = on_clock sch h t"
| "agg_step sch h (Receive pkt) = on_partial sch h pkt"
| "agg_step sch h (SyncFrom target bs) = on_sync sch h target bs"

definition agg_run :: "scheme \<Rightarrow> Aggregator \<Rightarrow> agg_input list \<Rightarrow> Aggregator" where
  "agg_run sch h inputs = foldl (agg_step sch) h inputs"

text \<open>
  Modelled from the spec: a new handler is idle, with an empty store and an empty cache
  (the cache is volatile).
\<close>

definition NewHandler :: "Group \<Rightarrow> nat \<Rightarrow> nat \<Rightarrow> Aggregator" where
  "NewHandler g i share =
     \<lparr>agg_state = Idle, agg_group = g, agg_index = i, agg_share = share, agg_store = [],
      agg_cache = (\<lambda>r. []), agg_round = 0, agg_broadcast = []\<rparr>"


section \<open>Auxiliary definitions and concrete inputs\<close>

subsection \<open>One attempt of a unary call, in general\<close>

text \<open>
  The bodies of the unary calls differ in the method they invoke and in whether they
  ask \<^verbatim>\<open>getTimeoutContext\<close> for the context; \<open>unary_attempt\<close> is that common shape, to
  which each call is proved equal below.
\<close>

definition unary_attempt ::
  "rpc \<Rightarrow> bool \<Rightarrow> grpc_env \<Rightarrow> Peer \<Rightarrow> bytes \<Rightarrow> grpcClient \<Rightarrow> event list \<Rightarrow> call_outcome" where
  "unary_attempt m with_timeout env p inp g tr =
     (case grpcClient_conn env p g tr of
        ((c, Some err), g', tr') \<Rightarrow> (Inl err, g', tr')
      | ((c, None), g', tr') \<Rightarrow>
          (let cx = (if with_timeout then getTimeoutContext env g' Background tr' else Background);
               (r, tr'') = grpc_Invoke env c m cx inp tr'
           in (r, g', tr'')))"

text \<open>The deadlines of the calls that a piece of trace holds.\<close>

fun invoked_deadlines :: "event list \<Rightarrow> (rpc \<times> int option) list" where
  "invoked_deadlines [] = []"
| "invoked_deadlines (Dialed target os # evs) = invoked_deadlines evs"
| "invoked_deadlines (Invoked c m cx # evs) = (m, Deadline cx) # invoked_deadlines evs"

fun dialed_targets :: "event list \<Rightarrow> string list" where
  "dialed_targets [] = []"
| "dialed_targets (Dialed target os # evs) = target # dialed_targets evs"
| "dialed_targets (Invoked c m cx # evs) = dialed_targets evs"

subsection \<open>Concrete networks\<close>

text \<open>A network where every dial and every call succeeds, at second 5 of the clock.\<close>

definition env_ok :: grpc_env where
  "env_ok = \<lparr>time_Now = (\<lambda>n. 5 * Second), dial_error = (\<lambda>n a. None),
             call_result = (\<lambda>n c m cx inp. Inr [])\<rparr>"

text \<open>A network where every dial succeeds and every call fails with a connection error.\<close>

definition env_down :: grpc_env where
  "env_down = \<lparr>time_Now = (\<lambda>n. 5 * Second), dial_error = (\<lambda>n a. None),
               call_result = (\<lambda>n c m cx inp. Inl ''rpc error: connection error'')\<rparr>"

definition peer_a :: Peer where
  "peer_a = \<lparr>Address = ''10.0.0.1:4444'', IsTLS = False\<rparr>"


subsection \<open>Concrete nodes, packets and key stores\<close>



definition beacon_1 :: Beacon where
  "beacon_1 = \<lparr>Round = 1, PreviousRound = 0, PreviousSig = [7], Signature = [11]\<rparr>"

definition beacon_2 :: Beacon where
  "beacon_2 = \<lparr>Round = 2, PreviousRound = 1, PreviousSig = [11], Signature = [12]\<rparr>"

definition beacon_4 :: Beacon where
  "beacon_4 = \<lparr>Round = 4, PreviousRound = 2, PreviousSig = [12], Signature = [14]\<rparr>"

text \<open>A node before any DKG: no beacon handler, no DKG handler, no resharing prepared.\<close>

definition node_fresh :: Drand where
  "node_fresh =
     \<lparr>priv_Addr = ''127.0.0.1:8000'', dkgDone = False, dkg = None, nextGroupHash = [],
      nextConf = 0, nextFirstReceived = False, nextOldPresent = False, startedDKG = [],
      beacon = None, callbacks = []\<rparr>"

text \<open>A node whose beacon engine runs, with three stored beacons (round 3 was skipped).\<close>

definition node_running :: Drand where
  "node_running = node_fresh\<lparr>dkgDone := True, beacon := Some \<lparr>Store = [beacon_1, beacon_2, beacon_4]\<rparr>\<rparr>"

text \<open>
  A member of the old group on which \<^verbatim>\<open>InitReshare\<close> has set the expected hash of the
  next group, and whose DKG handler does not exist yet.
\<close>

definition node_resharing :: Drand where
  "node_resharing = node_fresh\<lparr>dkgDone := True, nextGroupHash := ''c0ffee'', nextConf := 1,
      nextOldPresent := True\<rparr>"

text \<open>The same node once its DKG handler exists.\<close>

definition node_resharing_dkg :: Drand where
  "node_resharing_dkg = node_resharing\<lparr>dkg := Some \<lparr>dkg_processed = []\<rparr>\<rparr>"

text \<open>The first packet of the leader: the expected hash and no DKG packet.\<close>

definition leader_first_packet :: ResharePacket where
  "leader_first_packet = \<lparr>GroupHash = ''c0ffee'', Dkg = None\<rparr>"

definition deal_packet :: ResharePacket where
  "deal_packet = \<lparr>GroupHash = ''c0ffee'', Dkg = Some [1, 2, 3]\<rparr>"

definition stale_packet :: ResharePacket where
  "stale_packet = \<lparr>GroupHash = ''deadbeef'', Dkg = Some [1, 2, 3]\<rparr>"

text \<open>
  A key store on a disk that holds at most one key pair per run (the folder is not looked
  at): loading fails when there is none, saving replaces it.
\<close>

definition disk_load :: "string \<Rightarrow> Pair option \<Rightarrow> string + Pair" where
  "disk_load folder disk = (case disk of None \<Rightarrow> Inl ''no such file'' | Some kp \<Rightarrow> Inr kp)"

definition disk_save :: "string \<Rightarrow> Pair \<Rightarrow> Pair option \<Rightarrow> string option \<times> Pair option" where
  "disk_save folder kp disk = (None, Some kp)"

definition some_config :: Config where
  "some_config =
     \<lparr>configFolder = ''.drand'', logDebug = False, listenAddr = [], controlPort = ''8888'',
      insecure = False, certPath = [], keyPath = [], trustedCerts = []\<rparr>"

definition keygen_env_1 :: "Pair option keygen_env" where
  "keygen_env_1 =
     \<lparr>scans = [Inl ''unexpected newline'', Inr ''80'', Inr ''4444''],
      NewKeyPair = (\<lambda>addr. \<lparr>pair_Addr = addr, pair_TLS = False, pair_Key = 42\<rparr>),
      NewTLSKeyPair = (\<lambda>addr. \<lparr>pair_Addr = addr, pair_TLS = True, pair_Key = 42\<rparr>),
      fs_Files = (\<lambda>dir. Inr []),
      default_Config = some_config,
      LoadKeyPair = disk_load,
      SaveKeyPair = disk_save,
      abs_error = (\<lambda>path. None),
      toml_error = (\<lambda>kp. None)\<rparr>"

definition keygen_context_1 :: cli_context where
  "keygen_context_1 =
     \<lparr>args = [''drand.example.org''], flag_tls_disable = True, flag_folder = ''/home/drand/.drand'',
      flag_verbose_set = False, flag_listen = [], flag_control = [], flag_tls_cert = None,
      flag_tls_key = None, flag_certs_dir = None\<rparr>"

definition old_pair :: Pair where
  "old_pair = \<lparr>pair_Addr = ''drand.example.org:1234'', pair_TLS = True, pair_Key = 7\<rparr>"


subsection \<open>Subscribers\<close>

text \<open>
  The sends of a notification, or of part of one: each goes to a stream that was
  registered at the start, and a failed one leaves its subscriber out of the registry.
\<close>

definition sends_ok ::
  "registry \<Rightarrow> registry \<Rightarrow> (nat \<times> PublicRandResponse \<times> string option) list \<Rightarrow> bool" where
  "sends_ok before after ys =
     list_all (\<lambda>x. list_ex (\<lambda>e. stream_id (snd e) = fst x
                      \<and> (snd (snd x) = None \<or> fst e \<notin> fst ` set after)) before) ys"

text \<open>
  Two subscribers, and a network on which every send to stream 1 fails; a third stream
  that is opened later.
\<close>

definition send_fails_1 :: send_env where
  "send_fails_1 step sid msg = (if sid = 1 then Some ''transport is closing'' else None)"

definition stream_1 :: ServerStream where
  "stream_1 = \<lparr>stream_id = 1, stream_peer = Some ''10.0.0.7:5001''\<rparr>"

definition stream_2 :: ServerStream where
  "stream_2 = \<lparr>stream_id = 2, stream_peer = Some ''10.0.0.8:5002''\<rparr>"

definition stream_3 :: ServerStream where
  "stream_3 = \<lparr>stream_id = 3, stream_peer = Some ''10.0.0.7:5001''\<rparr>"

definition node_streaming :: Drand where
  "node_streaming = node_running\<lparr>callbacks := [(''10.0.0.7:5001'', stream_1), (''10.0.0.8:5002'', stream_2)]\<rparr>"

definition world_0 :: stream_world where
  "world_0 = \<lparr>sent = [], done_chan = []\<rparr>"

text \<open>The node and the streams after the beacon of round 1 has been delivered.\<close>

definition node_streaming_1 :: Drand where
  "node_streaming_1 = node_running\<lparr>callbacks := [(''10.0.0.8:5002'', stream_2)]\<rparr>"

definition world_1 :: stream_world where
  "world_1 =
     \<lparr>sent = [(1, beacon_response id beacon_1, Some ''transport is closing''),
              (2, beacon_response id beacon_1, None)],
      done_chan = [(1, ''transport is closing'')]\<rparr>"

definition later_events :: "registry_event list" where
  "later_events = [BeaconStored beacon_2, StreamOpened stream_3, BeaconStored beacon_4]"


subsection \<open>The invariant of the chain and a toy group\<close>

text \<open>The invariant of the chain: every stored beacon passes the check of the tests' callback.\<close>

definition chain_verified :: "scheme \<Rightarrow> Aggregator \<Rightarrow> bool" where
  "chain_verified sch h = list_all (myCallBack sch (DistPublic (agg_group h))) (agg_store h)"

text \<open>The invariant together with the group, which no step changes.\<close>

definition keeps_chain :: "scheme \<Rightarrow> Aggregator \<Rightarrow> Aggregator \<Rightarrow> bool" where
  "keeps_chain sch h h' = (agg_group h' = agg_group h \<and> (chain_verified sch h \<longrightarrow> chain_verified sch h'))"


text \<open>
  A toy scheme for running the model: the signature of a message is the message, and
  any one partial recovers it. A group of one node with threshold 1, period 2 and
  genesis at second 10.
\<close>

definition toy_scheme :: scheme where
  "toy_scheme =
     \<lparr>Message = (\<lambda>ps pr r. ps @ [of_nat pr, of_nat r]),
      Sign = (\<lambda>share msg. msg),
      VerifyPartial = (\<lambda>pub i msg sg. sg = msg),
      Recover = (\<lambda>pub msg partials thr. case partials of [] \<Rightarrow> None | p # ps \<Rightarrow> Some (snd p)),
      VerifyRecovered = (\<lambda>pub msg sg. sg = msg)\<rparr>"

definition toy_group :: Group where
  "toy_group =
     \<lparr>Nodes = [''10.0.0.1:4444''], Threshold = 1, Period = 2, GenesisTime = 10,
      GenesisSeed = [7], DistPublic = 99\<rparr>"

definition toy_beacon_1 :: Beacon where
  "toy_beacon_1 = \<lparr>Round = 1, PreviousRound = 0, PreviousSig = [7], Signature = [7, 0, 1]\<rparr>"

definition toy_beacon_2 :: Beacon where
  "toy_beacon_2 =
     \<lparr>Round = 2, PreviousRound = 1, PreviousSig = [7, 0, 1], Signature = [7, 0, 1, 1, 2]\<rparr>"



section \<open>Properties of the network shim\<close>

lemma conn_cached:
  "conns g (Address p) = Some c \<Longrightarrow> grpcClient_conn env p g tr = ((c, None), g, tr)"
  by (simp add: grpcClient_conn_def)

lemma conn_fresh_ok:
  "conns g (Address p) = None \<Longrightarrow> dial_error env (length tr) (Address p) = None \<Longrightarrow>
   grpcClient_conn env p g tr =
     ((Some (ClientConn (length tr)), None),
      g\<lparr>conns := (conns g)(Address p \<mapsto> Some (ClientConn (length tr)))\<rparr>,
      tr @ [Dialed (Address p) (conn_dial_options p g)])"
  by (simp add: grpcClient_conn_def grpc_Dial_def)

lemma conn_fresh_fail:
  "conns g (Address p) = None \<Longrightarrow> dial_error env (length tr) (Address p) = Some e \<Longrightarrow>
   grpcClient_conn env p g tr =
     ((None, Some e), g\<lparr>conns := (conns g)(Address p \<mapsto> None)\<rparr>,
      tr @ [Dialed (Address p) (conn_dial_options p g)])"
  by (simp add: grpcClient_conn_def grpc_Dial_def)

lemma getTimeoutContext_Background:
  "getTimeoutContext env g Background tr =
     \<lparr>Deadline = Some (time_Now env (length tr) + timeout g)\<rparr>"
  by (simp add: getTimeoutContext_def WithDeadline_def Background_def)

text \<open>Each unary call is an instance of the common shape.\<close>

lemma PublicRand_unary: "grpcClient_PublicRand = unary_attempt PublicRand_rpc True"
  by (intro ext) (simp add: grpcClient_PublicRand_def unary_attempt_def split: prod.split option.split)

lemma PrivateRand_unary: "grpcClient_PrivateRand = unary_attempt PrivateRand_rpc True"
  by (intro ext) (simp add: grpcClient_PrivateRand_def unary_attempt_def split: prod.split option.split)

lemma Group_unary: "grpcClient_Group = unary_attempt Group_rpc True"
  by (intro ext) (simp add: grpcClient_Group_def unary_attempt_def split: prod.split option.split)

lemma DistKey_unary: "grpcClient_DistKey = unary_attempt DistKey_rpc False"
  by (intro ext) (simp add: grpcClient_DistKey_def unary_attempt_def split: prod.split option.split)

lemma Setup_unary: "grpcClient_Setup = unary_attempt Setup_rpc True"
  by (intro ext) (simp add: grpcClient_Setup_def unary_attempt_def split: prod.split option.split)

lemma Reshare_unary: "grpcClient_Reshare = unary_attempt Reshare_rpc True"
  by (intro ext) (simp add: grpcClient_Reshare_def unary_attempt_def split: prod.split option.split)

lemma NewBeacon_do_unary: "NewBeacon_do = unary_attempt NewBeacon_rpc True"
  by (intro ext) (simp add: NewBeacon_do_def unary_attempt_def split: prod.split option.split)

lemma Home_unary: "grpcClient_Home = unary_attempt Home_rpc True"
  by (intro ext) (simp add: grpcClient_Home_def unary_attempt_def split: prod.split option.split)

text \<open>What one attempt does, by the state of the cache and the answer of the dial.\<close>

lemma unary_attempt_cached:
  assumes "conns g (Address p) = Some c"
  shows "unary_attempt m wt env p inp g tr =
     (call_result env (length tr) c m
        (if wt then \<lparr>Deadline = Some (time_Now env (length tr) + timeout g)\<rparr> else Background) inp,
      g,
      tr @ [Invoked c m
        (if wt then \<lparr>Deadline = Some (time_Now env (length tr) + timeout g)\<rparr> else Background)])"
  using assms
  by (simp add: unary_attempt_def conn_cached grpc_Invoke_def getTimeoutContext_Background Let_def)

lemma unary_attempt_fresh_ok:
  assumes "conns g (Address p) = None" and "dial_error env (length tr) (Address p) = None"
  shows "unary_attempt m wt env p inp g tr =
     (call_result env (Suc (length tr)) (Some (ClientConn (length tr))) m
        (if wt then \<lparr>Deadline = Some (time_Now env (Suc (length tr)) + timeout g)\<rparr>
         else Background) inp,
      g\<lparr>conns := (conns g)(Address p \<mapsto> Some (ClientConn (length tr)))\<rparr>,
      tr @ [Dialed (Address p) (conn_dial_options p g),
            Invoked (Some (ClientConn (length tr))) m
              (if wt then \<lparr>Deadline = Some (time_Now env (Suc (length tr)) + timeout g)\<rparr>
               else Background)])"
  using assms
  by (simp add: unary_attempt_def conn_fresh_ok grpc_Invoke_def getTimeoutContext_Background Let_def)

lemma unary_attempt_fresh_fail:
  assumes "conns g (Address p) = None" and "dial_error env (length tr) (Address p) = Some e"
  shows "unary_attempt m wt env p inp g tr =
     (Inl e, g\<lparr>conns := (conns g)(Address p \<mapsto> None)\<rparr>,
      tr @ [Dialed (Address p) (conn_dial_options p g)])"
  using assms by (simp add: unary_attempt_def conn_fresh_fail)

text \<open>
  The events of one attempt: at most one dial, of the peer's address, and at most one
  call, whose deadline is the clock plus the client's timeout when the call asks for one
  and absent otherwise.
\<close>

lemma unary_attempt_events:
  "\<exists>evs. snd (snd (unary_attempt m wt env p inp g tr)) = tr @ evs
     \<and> (dialed_targets evs = [] \<or> dialed_targets evs = [Address p])
     \<and> (invoked_deadlines evs = []
        \<or> (\<exists>n. invoked_deadlines evs =
              [(m, if wt then Some (time_Now env n + timeout g) else None)]))"
proof (cases "conns g (Address p)")
  case (Some c)
  show ?thesis
    unfolding unary_attempt_cached [OF Some] by (auto simp: Background_def)
next
  case None
  show ?thesis
  proof (cases "dial_error env (length tr) (Address p)")
    case dn: None
    show ?thesis
      unfolding unary_attempt_fresh_ok [OF None dn] by (auto simp: Background_def)
  next
    case (Some e)
    show ?thesis
      unfolding unary_attempt_fresh_fail [OF None Some] by simp
  qed
qed

text \<open>
  The sibling calls of \<^verbatim>\<open>DistKey\<close> carry a deadline: every call they make has the
  deadline of the clock plus the timeout, one minute for a client of \<^verbatim>\<open>NewGrpcClient\<close>.
\<close>

lemma timeout_calls_carry_deadline:
  assumes "snd (snd (unary_attempt m True env p inp g tr)) = tr @ evs"
  shows "list_all (\<lambda>d. snd d \<noteq> None) (invoked_deadlines evs)"
proof -
  obtain evs' where e: "snd (snd (unary_attempt m True env p inp g tr)) = tr @ evs'"
    and d: "invoked_deadlines evs' = []
        \<or> (\<exists>n. invoked_deadlines evs' = [(m, Some (time_Now env n + timeout g))])"
    using unary_attempt_events [of m True env p inp g tr] by auto
  from e assms have "evs' = evs" by simp
  with d show ?thesis by auto
qed

text \<open>\<^verbatim>\<open>DistKey\<close> never sets one, whatever the client, the peer and the network.\<close>

lemma DistKey_never_sets_deadline:
  assumes "snd (snd (grpcClient_DistKey env p inp g tr)) = tr @ evs"
  shows "list_all (\<lambda>d. snd d = None) (invoked_deadlines evs)"
proof -
  obtain evs' where e: "snd (snd (unary_attempt DistKey_rpc False env p inp g tr)) = tr @ evs'"
    and d: "invoked_deadlines evs' = []
        \<or> (\<exists>n. invoked_deadlines evs' = [(DistKey_rpc, None)])"
    using unary_attempt_events [of DistKey_rpc False env p inp g tr] by auto
  from e assms have "evs' = evs" by (simp add: DistKey_unary)
  with d show ?thesis by auto
qed

lemma NewGrpcClient_timeout: "timeout (NewGrpcClient os) = 60000000000"
  by (simp add: NewGrpcClient_def defaultTimeout_def Minute_def Second_def)

text \<open>
  Claim C5 (every unary call of the shim carries a deadline, one minute by default), at
  the call where the code departs from it: \<^verbatim>\<open>DistKey\<close> on a new client, towards a
  peer that answers, invokes the remote method with a context that has no deadline.
\<close>

theorem DistKey_call_has_no_deadline:
  "snd (snd (grpcClient_DistKey env_ok peer_a [] (NewGrpcClient []) [])) =
     [Dialed ''10.0.0.1:4444'' [WithInsecure],
      Invoked (Some (ClientConn 0)) DistKey_rpc \<lparr>Deadline = None\<rparr>]"
  by (simp add: DistKey_unary unary_attempt_fresh_ok NewGrpcClient_def peer_a_def env_ok_def
      Background_def conn_dial_options_def)

text \<open>The same call of a sibling, \<^verbatim>\<open>Home\<close>, has the deadline of one minute from now.\<close>

lemma Home_call_has_deadline:
  "snd (snd (grpcClient_Home env_ok peer_a [] (NewGrpcClient []) [])) =
     [Dialed ''10.0.0.1:4444'' [WithInsecure],
      Invoked (Some (ClientConn 0)) Home_rpc \<lparr>Deadline = Some (5 * Second + 1 * Minute)\<rparr>]"
  by (simp add: Home_unary unary_attempt_fresh_ok NewGrpcClient_def peer_a_def env_ok_def
      conn_dial_options_def defaultTimeout_def)


lemma deleteConn_drops: "conns (deleteConn p g) (Address p) = None"
  by (simp add: deleteConn_def)

lemma deleteConn_options: "conn_dial_options p (deleteConn q g) = conn_dial_options p g"
  by (simp add: deleteConn_def conn_dial_options_def split: option.split)

text \<open>A second attempt after \<^verbatim>\<open>deleteConn\<close> starts with a dial of the peer and makes at most one call.\<close>

lemma attempt_after_deleteConn:
  "\<exists>r2 g2 evs.
     unary_attempt m wt env p inp (deleteConn p g1) tr1 =
       (r2, g2, tr1 @ Dialed (Address p) (conn_dial_options p g1) # evs)
     \<and> dialed_targets evs = []
     \<and> (evs = [] \<or> (\<exists>c cx. evs = [Invoked c m cx]))"
proof (cases "dial_error env (length tr1) (Address p)")
  case None
  show ?thesis
    unfolding unary_attempt_fresh_ok [OF deleteConn_drops None]
    by (simp add: deleteConn_options)
next
  case (Some e)
  show ?thesis
    unfolding unary_attempt_fresh_fail [OF deleteConn_drops Some]
    by (simp add: deleteConn_options)
qed

lemma unary_attempt_keeps_cached:
  assumes "conns g (Address p) = Some c"
  shows "\<exists>cx. unary_attempt m wt env p inp g tr =
           (call_result env (length tr) c m cx inp, g, tr @ [Invoked c m cx])"
  unfolding unary_attempt_cached [OF assms] by blast

text \<open>
  Claim C6, as amended: when \<^verbatim>\<open>NewBeacon\<close> fails with an error whose description
  contains "connection error", the shim drops the cached connection of that peer,
  dials the peer again and retries the call once (the retry is one more attempt: one
  dial and at most one call); any other outcome of the first attempt is returned as it is,
  without a dial. The other unary calls have no such retry: on a cached connection each
  makes one call on it and returns its outcome, whatever the error says, leaving the
  client and its cache as they were and dialing nothing.
\<close>

theorem NewBeacon_redials_once:
  "(case NewBeacon_do env p inp g tr of
      (Inl err, g1, tr1) \<Rightarrow>
        if Contains err ''connection error''
        then conns (deleteConn p g1) (Address p) = None
             \<and> grpcClient_NewBeacon env p inp g tr
                 = NewBeacon_do env p inp (deleteConn p g1) tr1
             \<and> (\<exists>r2 g2 evs.
                   grpcClient_NewBeacon env p inp g tr =
                     (r2, g2, tr1 @ Dialed (Address p) (conn_dial_options p g1) # evs)
                   \<and> dialed_targets evs = []
                   \<and> (evs = [] \<or> (\<exists>c cx. evs = [Invoked c NewBeacon_rpc cx])))
        else grpcClient_NewBeacon env p inp g tr = (Inl err, g1, tr1)
    | (Inr resp, g1, tr1) \<Rightarrow> grpcClient_NewBeacon env p inp g tr = (Inr resp, g1, tr1))
   \<and> (conns g (Address p) = Some c \<longrightarrow>
        list_all
          (\<lambda>(call, m). \<exists>cx. call env p inp g tr =
                (call_result env (length tr) c m cx inp, g, tr @ [Invoked c m cx]))
          [(grpcClient_PublicRand, PublicRand_rpc), (grpcClient_PrivateRand, PrivateRand_rpc),
           (grpcClient_Group, Group_rpc), (grpcClient_DistKey, DistKey_rpc),
           (grpcClient_Setup, Setup_rpc), (grpcClient_Reshare, Reshare_rpc),
           (grpcClient_Home, Home_rpc)])"
proof (intro conjI impI)
  obtain r1 g1 tr1 where first: "NewBeacon_do env p inp g tr = (r1, g1, tr1)"
    by (cases "NewBeacon_do env p inp g tr") auto
  show "case NewBeacon_do env p inp g tr of
      (Inl err, g1, tr1) \<Rightarrow>
        if Contains err ''connection error''
        then conns (deleteConn p g1) (Address p) = None
             \<and> grpcClient_NewBeacon env p inp g tr
                 = NewBeacon_do env p inp (deleteConn p g1) tr1
             \<and> (\<exists>r2 g2 evs.
                   grpcClient_NewBeacon env p inp g tr =
                     (r2, g2, tr1 @ Dialed (Address p) (conn_dial_options p g1) # evs)
                   \<and> dialed_targets evs = []
                   \<and> (evs = [] \<or> (\<exists>c cx. evs = [Invoked c NewBeacon_rpc cx])))
        else grpcClient_NewBeacon env p inp g tr = (Inl err, g1, tr1)
    | (Inr resp, g1, tr1) \<Rightarrow> grpcClient_NewBeacon env p inp g tr = (Inr resp, g1, tr1)"
  proof (cases r1)
    case (Inr resp)
    with first show ?thesis by (simp add: grpcClient_NewBeacon_def)
  next
    case (Inl err)
    show ?thesis
    proof (cases "Contains err ''connection error''")
      case False
      with first Inl show ?thesis by (simp add: grpcClient_NewBeacon_def)
    next
      case True
      have retry: "grpcClient_NewBeacon env p inp g tr
                     = NewBeacon_do env p inp (deleteConn p g1) tr1"
        using first Inl True by (simp add: grpcClient_NewBeacon_def)
      have shape: "\<exists>r2 g2 evs.
          NewBeacon_do env p inp (deleteConn p g1) tr1 =
            (r2, g2, tr1 @ Dialed (Address p) (conn_dial_options p g1) # evs)
          \<and> dialed_targets evs = []
          \<and> (evs = [] \<or> (\<exists>c cx. evs = [Invoked c NewBeacon_rpc cx]))"
        unfolding NewBeacon_do_unary by (rule attempt_after_deleteConn)
      show ?thesis
        using first Inl True retry shape by (simp add: deleteConn_drops)
    qed
  qed
next
  assume cached: "conns g (Address p) = Some c"
  show "list_all
          (\<lambda>(call, m). \<exists>cx. call env p inp g tr =
                (call_result env (length tr) c m cx inp, g, tr @ [Invoked c m cx]))
          [(grpcClient_PublicRand, PublicRand_rpc), (grpcClient_PrivateRand, PrivateRand_rpc),
           (grpcClient_Group, Group_rpc), (grpcClient_DistKey, DistKey_rpc),
           (grpcClient_Setup, Setup_rpc), (grpcClient_Reshare, Reshare_rpc),
           (grpcClient_Home, Home_rpc)]"
    by (simp add: PublicRand_unary PrivateRand_unary Group_unary DistKey_unary Setup_unary
        Reshare_unary Home_unary unary_attempt_keeps_cached [OF cached])
qed

text \<open>
  The theorem at a new client and a peer whose calls all fail with a connection error:
  \<^verbatim>\<open>NewBeacon\<close> dials, calls, dials again and calls again, and then returns the error.
\<close>

theorem NewBeacon_redials_once_witness:
  "NewBeacon_do env_down peer_a [] (NewGrpcClient []) [] =
     (Inl ''rpc error: connection error'',
      (NewGrpcClient [])\<lparr>conns := [''10.0.0.1:4444'' \<mapsto> Some (ClientConn 0)]\<rparr>,
      [Dialed ''10.0.0.1:4444'' [WithInsecure],
       Invoked (Some (ClientConn 0)) NewBeacon_rpc \<lparr>Deadline = Some (5 * Second + 1 * Minute)\<rparr>])
   \<and> Contains ''rpc error: connection error'' ''connection error''
   \<and> snd (snd (grpcClient_NewBeacon env_down peer_a [] (NewGrpcClient []) [])) =
      [Dialed ''10.0.0.1:4444'' [WithInsecure],
       Invoked (Some (ClientConn 0)) NewBeacon_rpc \<lparr>Deadline = Some (5 * Second + 1 * Minute)\<rparr>,
       Dialed ''10.0.0.1:4444'' [WithInsecure],
       Invoked (Some (ClientConn 2)) NewBeacon_rpc \<lparr>Deadline = Some (5 * Second + 1 * Minute)\<rparr>]"
proof -
  have first: "NewBeacon_do env_down peer_a [] (NewGrpcClient []) [] =
     (Inl ''rpc error: connection error'',
      (NewGrpcClient [])\<lparr>conns := [''10.0.0.1:4444'' \<mapsto> Some (ClientConn 0)]\<rparr>,
      [Dialed ''10.0.0.1:4444'' [WithInsecure],
       Invoked (Some (ClientConn 0)) NewBeacon_rpc \<lparr>Deadline = Some (5 * Second + 1 * Minute)\<rparr>])"
    by (simp add: NewBeacon_do_unary unary_attempt_fresh_ok NewGrpcClient_def peer_a_def
        env_down_def conn_dial_options_def defaultTimeout_def)
  have sub: "Contains ''rpc error: connection error'' ''connection error''"
    by simp
  have second: "NewBeacon_do env_down peer_a []
      (deleteConn peer_a ((NewGrpcClient [])\<lparr>conns := [''10.0.0.1:4444'' \<mapsto> Some (ClientConn 0)]\<rparr>))
      [Dialed ''10.0.0.1:4444'' [WithInsecure],
       Invoked (Some (ClientConn 0)) NewBeacon_rpc \<lparr>Deadline = Some (5 * Second + 1 * Minute)\<rparr>]
     = (Inl ''rpc error: connection error'',
        (NewGrpcClient [])\<lparr>conns := [''10.0.0.1:4444'' \<mapsto> Some (ClientConn 2)]\<rparr>,
      [Dialed ''10.0.0.1:4444'' [WithInsecure],
       Invoked (Some (ClientConn 0)) NewBeacon_rpc \<lparr>Deadline = Some (5 * Second + 1 * Minute)\<rparr>,
       Dialed ''10.0.0.1:4444'' [WithInsecure],
       Invoked (Some (ClientConn 2)) NewBeacon_rpc \<lparr>Deadline = Some (5 * Second + 1 * Minute)\<rparr>])"
    by (simp add: NewBeacon_do_unary unary_attempt_fresh_ok NewGrpcClient_def peer_a_def
        env_down_def conn_dial_options_def defaultTimeout_def deleteConn_def numeral_2_eq_2)
  from NewBeacon_redials_once
         [where env = env_down and p = peer_a and inp = "[]" and g = "NewGrpcClient []" and tr = "[]"]
  have "grpcClient_NewBeacon env_down peer_a [] (NewGrpcClient []) [] =
        NewBeacon_do env_down peer_a []
      (deleteConn peer_a ((NewGrpcClient [])\<lparr>conns := [''10.0.0.1:4444'' \<mapsto> Some (ClientConn 0)]\<rparr>))
      [Dialed ''10.0.0.1:4444'' [WithInsecure],
       Invoked (Some (ClientConn 0)) NewBeacon_rpc \<lparr>Deadline = Some (5 * Second + 1 * Minute)\<rparr>]"
    unfolding first using sub by simp
  with first sub second show ?thesis by simp
qed

text \<open>
  Claim C6 as stated fails for the other unary calls: \<^verbatim>\<open>Home\<close> on a new client, towards
  a peer whose calls fail with a connection error, returns that error after its one dial
  and one call; the connection stays cached and nothing is dialed again.
\<close>

theorem Home_does_not_redial:
  "fst (grpcClient_Home env_down peer_a [] (NewGrpcClient []) []) = Inl ''rpc error: connection error''
   \<and> Contains ''rpc error: connection error'' ''connection error''
   \<and> conns (fst (snd (grpcClient_Home env_down peer_a [] (NewGrpcClient []) []))) ''10.0.0.1:4444''
       = Some (Some (ClientConn 0))
   \<and> snd (snd (grpcClient_Home env_down peer_a [] (NewGrpcClient []) [])) =
       [Dialed ''10.0.0.1:4444'' [WithInsecure],
        Invoked (Some (ClientConn 0)) Home_rpc \<lparr>Deadline = Some (5 * Second + 1 * Minute)\<rparr>]"
  by (simp add: Home_unary unary_attempt_fresh_ok NewGrpcClient_def peer_a_def
      env_down_def conn_dial_options_def defaultTimeout_def)


section \<open>Properties of the control plane\<close>




section \<open>Properties of the public service\<close>

lemma store_Get_find:
  "store_Get s r = (case find (\<lambda>b. Round b = r) s of None \<Rightarrow> Inl NotFound | Some b \<Rightarrow> Inr b)"
  by (induction s) auto






section \<open>Properties of \<^verbatim>\<open>Reshare\<close>\<close>

text \<open>
  Claim C8, as amended: when \<^verbatim>\<open>InitReshare\<close> has not been called (there is no expected
  hash of the next group) or the packet's group hash differs from the expected one,
  \<^verbatim>\<open>Reshare\<close> returns an error and leaves the node as it was, so the DKG payload is not
  processed. A packet without a DKG packet never reaches the DKG handler; with the
  expected hash it is accepted when the node has a DKG handler, and refused with the
  error "no dkg setup yet" when it has none.
\<close>

theorem Reshare_guards:
  "(nextGroupHash d = [] \<or> GroupHash inp \<noteq> nextGroupHash d \<longrightarrow>
      (\<exists>e. fst (Drand_Reshare inp d) = Inl e) \<and> snd (Drand_Reshare inp d) = d)
   \<and> (Dkg inp = None \<longrightarrow> dkg (snd (Drand_Reshare inp d)) = dkg d)
   \<and> (nextGroupHash d \<noteq> [] \<and> GroupHash inp = nextGroupHash d \<and> Dkg inp = None
        \<and> dkg d \<noteq> None \<longrightarrow> fst (Drand_Reshare inp d) = Inr ())
   \<and> (nextGroupHash d \<noteq> [] \<and> GroupHash inp = nextGroupHash d \<and> dkg d = None \<longrightarrow>
        fst (Drand_Reshare inp d) = Inl ErrNoDkgSetup)"
proof -
  have refused: "nextGroupHash d = [] \<or> GroupHash inp \<noteq> nextGroupHash d \<Longrightarrow>
      (\<exists>e. fst (Drand_Reshare inp d) = Inl e) \<and> snd (Drand_Reshare inp d) = d"
    by (auto simp: Drand_Reshare_def)
  have untouched: "Dkg inp = None \<Longrightarrow> dkg (snd (Drand_Reshare inp d)) = dkg d"
    by (simp add: Drand_Reshare_def Let_def split: option.split)
  have accepted: "nextGroupHash d \<noteq> [] \<and> GroupHash inp = nextGroupHash d \<and> Dkg inp = None
      \<and> dkg d \<noteq> None \<Longrightarrow> fst (Drand_Reshare inp d) = Inr ()"
    by (auto simp: Drand_Reshare_def Let_def split: option.split)
  have no_handler: "nextGroupHash d \<noteq> [] \<and> GroupHash inp = nextGroupHash d \<and> dkg d = None \<Longrightarrow>
      fst (Drand_Reshare inp d) = Inl ErrNoDkgSetup"
    by (simp add: Drand_Reshare_def Let_def)
  from refused untouched accepted no_handler show ?thesis by blast
qed

text \<open>
  The theorem on a node that expects the hash \<open>c0ffee\<close> and has a DKG handler: a packet
  with another hash is refused and changes nothing; the leader's first packet, which has
  no DKG packet, is accepted and nothing is handed to the DKG handler.
\<close>

theorem Reshare_guards_witness:
  "Drand_Reshare stale_packet node_resharing_dkg = (Inl ErrIncompatibleHashes, node_resharing_dkg)
   \<and> fst (Drand_Reshare leader_first_packet node_resharing_dkg) = Inr ()
   \<and> dkg (snd (Drand_Reshare leader_first_packet node_resharing_dkg)) = Some \<lparr>dkg_processed = []\<rparr>
   \<and> fst (Drand_Reshare leader_first_packet node_resharing) = Inl ErrNoDkgSetup"
proof -
  have h: "nextGroupHash node_resharing_dkg = ''c0ffee''" "nextGroupHash node_resharing = ''c0ffee''"
      "dkg node_resharing_dkg = Some \<lparr>dkg_processed = []\<rparr>" "dkg node_resharing = None"
    by (simp_all add: node_resharing_dkg_def node_resharing_def node_fresh_def)
  have p: "GroupHash stale_packet = ''deadbeef''" "GroupHash leader_first_packet = ''c0ffee''"
      "Dkg leader_first_packet = None"
    by (simp_all add: stale_packet_def leader_first_packet_def)
  have a: "(\<exists>e. fst (Drand_Reshare stale_packet node_resharing_dkg) = Inl e)
      \<and> snd (Drand_Reshare stale_packet node_resharing_dkg) = node_resharing_dkg"
    using Reshare_guards [where d = node_resharing_dkg and inp = stale_packet] h p by simp
  have a': "fst (Drand_Reshare stale_packet node_resharing_dkg) = Inl ErrIncompatibleHashes"
    by (simp add: Drand_Reshare_def h p)
  have b: "fst (Drand_Reshare leader_first_packet node_resharing_dkg) = Inr ()
      \<and> dkg (snd (Drand_Reshare leader_first_packet node_resharing_dkg)) = Some \<lparr>dkg_processed = []\<rparr>"
    using Reshare_guards [where d = node_resharing_dkg and inp = leader_first_packet] h p by simp
  have c: "fst (Drand_Reshare leader_first_packet node_resharing) = Inl ErrNoDkgSetup"
    using Reshare_guards [where d = node_resharing and inp = leader_first_packet] h p by simp
  from a a' b c show ?thesis by (simp add: prod_eq_iff)
qed

text \<open>
  Claim C8 as stated fails on its last part: on a member of the old group that expects
  the hash and has no DKG handler yet, the leader's first packet (the expected hash, no
  DKG packet) is not accepted: \<^verbatim>\<open>Reshare\<close> returns the error "no dkg setup yet", after
  having started the DKG in the background.
\<close>

theorem Reshare_first_packet_refused:
  "Dkg leader_first_packet = None
   \<and> GroupHash leader_first_packet = nextGroupHash node_resharing
   \<and> Drand_Reshare leader_first_packet node_resharing =
       (Inl ErrNoDkgSetup, node_resharing\<lparr>nextFirstReceived := True, startedDKG := [1]\<rparr>)"
  by (simp add: Drand_Reshare_def leader_first_packet_def node_resharing_def node_fresh_def)

text \<open>A packet with a DKG packet and the expected hash is handed to the DKG handler.\<close>

lemma Reshare_processes_deal:
  "dkg (snd (Drand_Reshare deal_packet node_resharing_dkg)) = Some \<lparr>dkg_processed = [[1, 2, 3]]\<rparr>"
  by (simp add: Drand_Reshare_def deal_packet_def node_resharing_dkg_def node_resharing_def
      node_fresh_def dkg_Process_def)


section \<open>Properties of the streaming subscribers\<close>

lemma DelCallback_subset: "set (DelCallback a reg) \<subseteq> set reg"
  by (auto simp: DelCallback_def)

lemma DelCallback_key: "a \<notin> fst ` set (DelCallback a reg)"
  by (auto simp: DelCallback_def)

text \<open>
  One callback: it makes one send on its stream; the registry can only lose entries, and
  it loses the callback's own key when the send fails.
\<close>

lemma stream_callback_effect:
  assumes "stream_callback env h' a s b st = st'"
  shows "set (callbacks (fst st')) \<subseteq> set (callbacks (fst st))
    \<and> (\<exists>e. sent (snd st') = sent (snd st) @ [(stream_id s, beacon_response h' b, e)]
          \<and> (e \<noteq> None \<longrightarrow> a \<notin> fst ` set (callbacks (fst st'))))"
proof (cases "env (length (sent (snd st))) (stream_id s) (beacon_response h' b)")
  case None
  with assms show ?thesis
    by (auto simp: stream_callback_def stream_Send_def Let_def)
next
  case (Some err)
  with assms have st': "st' = ((fst st)\<lparr>callbacks := DelCallback a (callbacks (fst st))\<rparr>,
      (snd st)\<lparr>sent := sent (snd st) @ [(stream_id s, beacon_response h' b, Some err)],
                done_chan := done_chan (snd st) @ [(stream_id s, err)]\<rparr>)"
    by (auto simp: stream_callback_def stream_Send_def Let_def)
  show ?thesis
    unfolding st' using DelCallback_subset [of a "callbacks (fst st)"]
      DelCallback_key [of a "callbacks (fst st)"]
    by auto
qed

lemma sends_ok_mono:
  assumes "sends_ok before after ys" and "set before \<subseteq> set before'"
    and "set after' \<subseteq> set after"
  shows "sends_ok before' after' ys"
proof -
  have keys: "fst ` set after' \<subseteq> fst ` set after"
    using assms(3) by (rule image_mono)
  show ?thesis
    using assms(1,2) keys unfolding sends_ok_def list_all_iff list_ex_iff
    by (meson subsetD)
qed

lemma notify_fold:
  "set (callbacks (fst (fold (notify_step env h' b) L st))) \<subseteq> set (callbacks (fst st))
   \<and> (\<exists>ys. sent (snd (fold (notify_step env h' b) L st)) = sent (snd st) @ ys
         \<and> sends_ok (callbacks (fst st)) (callbacks (fst (fold (notify_step env h' b) L st))) ys)"
proof (induction L arbitrary: st)
  case Nil
  show ?case by (simp add: sends_ok_def)
next
  case (Cons e L)
  let ?st1 = "notify_step env h' b e st"
  let ?st2 = "fold (notify_step env h' b) L ?st1"
  from Cons.IH [of ?st1] obtain ys where
    sub2: "set (callbacks (fst ?st2)) \<subseteq> set (callbacks (fst ?st1))"
    and ys: "sent (snd ?st2) = sent (snd ?st1) @ ys"
    and ok2: "sends_ok (callbacks (fst ?st1)) (callbacks (fst ?st2)) ys"
    by blast
  show ?case
  proof (cases "map_of (callbacks (fst st)) (fst e) = Some (snd e)")
    case False
    then have same: "?st1 = st" by (simp add: notify_step_def)
    with sub2 ys ok2 show ?thesis by auto
  next
    case True
    then have reg: "(fst e, snd e) \<in> set (callbacks (fst st))"
      by (rule map_of_SomeD)
    from True have step: "?st1 = stream_callback env h' (fst e) (snd e) b st"
      by (simp add: notify_step_def)
    from stream_callback_effect [OF step [symmetric]] obtain r where
      sub1: "set (callbacks (fst ?st1)) \<subseteq> set (callbacks (fst st))"
      and s1: "sent (snd ?st1) = sent (snd st) @ [(stream_id (snd e), beacon_response h' b, r)]"
      and del: "r \<noteq> None \<longrightarrow> fst e \<notin> fst ` set (callbacks (fst ?st1))"
      by blast
    have del2: "r \<noteq> None \<longrightarrow> fst e \<notin> fst ` set (callbacks (fst ?st2))"
      using del image_mono [OF sub2, of fst] by blast
    have "stream_id (snd e) = stream_id (snd e)
        \<and> (r = None \<or> fst e \<notin> fst ` set (callbacks (fst ?st2)))"
      using del2 by blast
    with reg have first: "sends_ok (callbacks (fst st)) (callbacks (fst ?st2))
        [(stream_id (snd e), beacon_response h' b, r)]"
      unfolding sends_ok_def list_ex_iff by (auto intro!: bexI [of _ e])
    have rest: "sends_ok (callbacks (fst st)) (callbacks (fst ?st2)) ys"
      by (rule sends_ok_mono [OF ok2 sub1 subset_refl])
    have "sends_ok (callbacks (fst st)) (callbacks (fst ?st2))
        ((stream_id (snd e), beacon_response h' b, r) # ys)"
      using first rest by (simp add: sends_ok_def)
    with sub1 sub2 s1 ys show ?thesis by auto
  qed
qed

lemma notify_callbacks_effect:
  "set (callbacks (fst (notify_callbacks env h' b st))) \<subseteq> set (callbacks (fst st))
   \<and> (\<exists>ys. sent (snd (notify_callbacks env h' b st)) = sent (snd st) @ ys
         \<and> sends_ok (callbacks (fst st)) (callbacks (fst (notify_callbacks env h' b st))) ys)"
  unfolding notify_callbacks_def by (rule notify_fold)

text \<open>A stream that is not registered gets nothing from a notification, and stays unregistered.\<close>

lemma notify_unregistered:
  assumes "i \<notin> set (registered_ids (fst st))"
  shows "i \<notin> set (registered_ids (fst (notify_callbacks env h' b st)))
    \<and> sends_to i (snd (notify_callbacks env h' b st)) = sends_to i (snd st)"
proof -
  from notify_callbacks_effect [of env h' b st] obtain ys where
    sub: "set (callbacks (fst (notify_callbacks env h' b st))) \<subseteq> set (callbacks (fst st))"
    and ys: "sent (snd (notify_callbacks env h' b st)) = sent (snd st) @ ys"
    and ok: "sends_ok (callbacks (fst st)) (callbacks (fst (notify_callbacks env h' b st))) ys"
    by blast
  have "\<forall>x \<in> set ys. fst x \<noteq> i"
  proof
    fix x assume "x \<in> set ys"
    with ok obtain e where "e \<in> set (callbacks (fst st))" "stream_id (snd e) = fst x"
      unfolding sends_ok_def list_all_iff list_ex_iff by blast
    then have "fst x \<in> set (registered_ids (fst st))"
      by (force simp: registered_ids_def)
    with assms show "fst x \<noteq> i" by blast
  qed
  then have "filter (\<lambda>e. fst e = i) ys = []"
    by (simp add: filter_empty_conv)
  with ys assms sub show ?thesis
    by (auto simp: sends_to_def registered_ids_def)
qed

lemma open_unregistered:
  assumes "i \<notin> set (registered_ids d)" and "stream_id s \<noteq> i"
    and "Drand_PublicRandStream req s d = Inr d'"
  shows "i \<notin> set (registered_ids d')"
  using assms
  by (auto simp: Drand_PublicRandStream_def AddCallback_def DelCallback_def registered_ids_def
      split: option.splits)

lemma registry_run_unregistered:
  assumes "i \<notin> set (registered_ids (fst st))" and "i \<notin> set (opened_ids evs)"
  shows "sends_to i (snd (registry_run env h' evs st)) = sends_to i (snd st)"
  using assms
proof (induction evs arbitrary: st)
  case Nil
  show ?case by simp
next
  case (Cons ev evs)
  show ?case
  proof (cases ev)
    case (BeaconStored b)
    from Cons.prems have later: "i \<notin> set (opened_ids evs)"
      by (simp add: opened_ids_def)
    from notify_unregistered [OF Cons.prems(1), of env h' b]
    have un: "i \<notin> set (registered_ids (fst (notify_callbacks env h' b st)))"
      and same: "sends_to i (snd (notify_callbacks env h' b st)) = sends_to i (snd st)"
      by simp_all
    from Cons.IH [OF un later] same BeaconStored show ?thesis by simp
  next
    case (StreamOpened s)
    from Cons.prems StreamOpened have other: "stream_id s \<noteq> i" and later: "i \<notin> set (opened_ids evs)"
      by (auto simp: opened_ids_def)
    show ?thesis
    proof (cases "Drand_PublicRandStream \<lparr>req_Round = 0\<rparr> s (fst st)")
      case (Inl u)
      with Cons.IH [OF Cons.prems(1) later] StreamOpened show ?thesis by simp
    next
      case (Inr d')
      from open_unregistered [OF Cons.prems(1) other Inr]
      have "i \<notin> set (registered_ids (fst (d', snd st)))" by simp
      from Cons.IH [OF this later] Inr StreamOpened show ?thesis by simp
    qed
  qed
qed

text \<open>
  Claim C7: let a stream be registered in the callback registry (each stream once), and
  let the delivery of a newly stored beacon to it fail. Then its callback is no longer
  in the registry after that notification, and whatever beacons are stored and whatever
  other streams are opened afterwards, nothing more is sent on that stream.
\<close>

theorem failed_delivery_drops_subscriber:
  assumes "distinct (registered_ids d)"
    and "(addr, s) \<in> set (callbacks d)"
    and "notify_callbacks env h' b (d, w) = (d1, w1)"
    and "(stream_id s, beacon_response h' b, Some err) \<in> set (drop (length (sent w)) (sent w1))"
    and "stream_id s \<notin> set (opened_ids evs)"
  shows "map_of (callbacks d1) addr = None
    \<and> stream_id s \<notin> set (registered_ids d1)
    \<and> sends_to (stream_id s) (snd (registry_run env h' evs (d1, w1))) = sends_to (stream_id s) w1"
proof -
  from notify_callbacks_effect [of env h' b "(d, w)"] assms(3) obtain ys where
    sub: "set (callbacks d1) \<subseteq> set (callbacks d)"
    and ys: "sent w1 = sent w @ ys"
    and ok: "sends_ok (callbacks d) (callbacks d1) ys"
    by auto
  from assms(4) ys have "(stream_id s, beacon_response h' b, Some err) \<in> set ys" by simp
  with ok obtain e where e: "e \<in> set (callbacks d)" "stream_id (snd e) = stream_id s"
      "fst e \<notin> fst ` set (callbacks d1)"
    unfolding sends_ok_def list_all_iff list_ex_iff by fastforce
  have inj: "inj_on (\<lambda>e. stream_id (snd e)) (set (callbacks d))"
    using assms(1) unfolding registered_ids_def by (simp add: distinct_map)
  have same: "\<And>e'. e' \<in> set (callbacks d) \<Longrightarrow> stream_id (snd e') = stream_id s \<Longrightarrow> e' = (addr, s)"
  proof -
    fix e' assume "e' \<in> set (callbacks d)" "stream_id (snd e') = stream_id s"
    with inj_onD [OF inj, of e' "(addr, s)"] assms(2) show "e' = (addr, s)" by simp
  qed
  from e same have "e = (addr, s)" by blast
  with e have gone: "addr \<notin> fst ` set (callbacks d1)" by simp
  then have dropped: "map_of (callbacks d1) addr = None"
    by (simp add: map_of_eq_None_iff)
  have unreg: "stream_id s \<notin> set (registered_ids d1)"
  proof
    assume "stream_id s \<in> set (registered_ids d1)"
    then obtain e' where e': "e' \<in> set (callbacks d1)" "stream_id (snd e') = stream_id s"
      by (auto simp: registered_ids_def)
    with sub same have "e' = (addr, s)" by blast
    with e' gone show False by force
  qed
  from registry_run_unregistered [of "stream_id s" "(d1, w1)" evs env h'] unreg assms(5)
  have "sends_to (stream_id s) (snd (registry_run env h' evs (d1, w1))) = sends_to (stream_id s) w1"
    by simp
  with dropped unreg show ?thesis by simp
qed


text \<open>
  The theorem on a node with two subscribers, where the sends on stream 1 fail: the
  beacon of round 1 is sent on both streams, the first subscriber is dropped, and the
  beacons of rounds 2 and 4 are not sent on stream 1, also after a new stream of the
  same peer has been opened.
\<close>

lemma notify_round_1:
  "notify_callbacks send_fails_1 id beacon_1 (node_streaming, world_0) = (node_streaming_1, world_1)"
  by (simp add: notify_callbacks_def notify_step_def stream_callback_def stream_Send_def
      node_streaming_def node_streaming_1_def world_0_def world_1_def send_fails_1_def
      stream_1_def stream_2_def DelCallback_def Let_def)

theorem failed_delivery_drops_subscriber_witness:
  "notify_callbacks send_fails_1 id beacon_1 (node_streaming, world_0) = (node_streaming_1, world_1)
   \<and> map_of (callbacks node_streaming_1) ''10.0.0.7:5001'' = None
   \<and> sends_to 1 (snd (registry_run send_fails_1 id later_events (node_streaming_1, world_1)))
       = [(1, beacon_response id beacon_1, Some ''transport is closing'')]"
proof -
  have d: "distinct (registered_ids node_streaming)"
    by (simp add: registered_ids_def node_streaming_def stream_1_def stream_2_def)
  have m: "(''10.0.0.7:5001'', stream_1) \<in> set (callbacks node_streaming)"
    by (simp add: node_streaming_def)
  have f: "(stream_id stream_1, beacon_response id beacon_1, Some ''transport is closing'')
      \<in> set (drop (length (sent world_0)) (sent world_1))"
    by (simp add: world_0_def world_1_def stream_1_def)
  have o: "stream_id stream_1 \<notin> set (opened_ids later_events)"
    by (simp add: opened_ids_def later_events_def stream_1_def stream_3_def)
  have s: "sends_to (stream_id stream_1) world_1
      = [(1, beacon_response id beacon_1, Some ''transport is closing'')]"
    by (simp add: sends_to_def world_1_def stream_1_def)
  have i: "stream_id stream_1 = 1"
    by (simp add: stream_1_def)
  from failed_delivery_drops_subscriber [OF d m notify_round_1 f o] s i notify_round_1
  show ?thesis by simp
qed

text \<open>The call of the dropped subscriber returns the error of its failed send.\<close>

lemma dropped_stream_returns_error:
  "PublicRandStream_result stream_1 world_1 = Some ''transport is closing''"
  by (simp add: PublicRandStream_result_def world_1_def stream_1_def)


section \<open>Properties of the generate-keypair command\<close>

lemma contextToConfig_folder:
  "contextToConfig env c = Inr config \<Longrightarrow> configFolder config = flag_folder c"
  by (auto simp: contextToConfig_def Let_def split: if_splits option.splits sum.splits)

text \<open>
  Claim C10: the command never overwrites a key pair that is present. When
  \<^verbatim>\<open>LoadKeyPair\<close> finds a key pair in the configuration folder, the disk after the
  command is the disk before it, however the command ends; the command does not depend
  on \<^verbatim>\<open>SaveKeyPair\<close> at all (it is not called); and once the command has its address
  and its configuration, it returns without an error.
\<close>

theorem keygen_keeps_present_pair:
  assumes "LoadKeyPair env (flag_folder c) disk = Inr present"
  shows "snd (keygenCmd env c disk) = disk
    \<and> (\<forall>save. keygenCmd (env\<lparr>SaveKeyPair := save\<rparr>) c disk = keygenCmd env c disk)
    \<and> (args c \<noteq> [] \<and> (validID (hd (args c)) \<or> askPort (scans env) \<noteq> None)
         \<and> contextToConfig env c \<noteq> Inl () \<longrightarrow>
       keygenCmd env c disk = (Returned None, disk))"
proof (intro conjI allI impI)
  show "snd (keygenCmd env c disk) = disk"
    using assms
    by (auto simp: keygenCmd_def Let_def dest: contextToConfig_folder
        split: list.split option.split sum.split)
next
  fix save
  have cfg: "contextToConfig (env\<lparr>SaveKeyPair := save\<rparr>) c = contextToConfig env c"
    by (simp add: contextToConfig_def Let_def split: option.split sum.split)
  show "keygenCmd (env\<lparr>SaveKeyPair := save\<rparr>) c disk = keygenCmd env c disk"
    using assms unfolding keygenCmd_def cfg
    by (auto simp: Let_def dest: contextToConfig_folder
        split: list.split option.split sum.split)
next
  assume a: "args c \<noteq> [] \<and> (validID (hd (args c)) \<or> askPort (scans env) \<noteq> None)
      \<and> contextToConfig env c \<noteq> Inl ()"
  then obtain first others where args: "args c = first # others"
    by (cases "args c") auto
  from a obtain config where cfg: "contextToConfig env c = Inr config"
    by (cases "contextToConfig env c") auto
  from a args have addr: "validID first \<or> askPort (scans env) \<noteq> None" by simp
  show "keygenCmd env c disk = (Returned None, disk)"
    using assms args cfg addr contextToConfig_folder [OF cfg]
    by (auto simp: keygenCmd_def Let_def split: option.split)
qed

text \<open>
  The theorem on a disk that holds a key pair: the address has no port, the port is
  asked for (a failed read, a refused port, then 4444), and the command returns with the
  disk unchanged. On an empty disk the same command saves the new key pair.
\<close>

theorem keygen_keeps_present_pair_witness:
  "LoadKeyPair keygen_env_1 (flag_folder keygen_context_1) (Some old_pair) = Inr old_pair
   \<and> keygenCmd keygen_env_1 keygen_context_1 (Some old_pair) = (Returned None, Some old_pair)"
proof -
  have load: "LoadKeyPair keygen_env_1 (flag_folder keygen_context_1) (Some old_pair) = Inr old_pair"
    by (simp add: keygen_env_1_def disk_load_def)
  have args: "args keygen_context_1 \<noteq> []"
    by (simp add: keygen_context_1_def)
  have port: "askPort (scans keygen_env_1) \<noteq> None"
    by (simp add: keygen_env_1_def Atoi_ok_def is_digit_def)
  have cfg: "contextToConfig keygen_env_1 keygen_context_1 \<noteq> Inl ()"
    by (simp add: contextToConfig_def keygen_context_1_def Let_def)
  from keygen_keeps_present_pair [OF load] args port cfg load
  show ?thesis by simp
qed

lemma keygen_saves_on_empty_disk:
  "keygenCmd keygen_env_1 keygen_context_1 None =
     (Returned None,
      Some \<lparr>pair_Addr = ''drand.example.org:4444'', pair_TLS = False, pair_Key = 42\<rparr>)"
  by (simp add: keygenCmd_def keygen_env_1_def keygen_context_1_def validID_def is_digit_def
      Atoi_ok_def contextToConfig_def Let_def disk_load_def disk_save_def some_config_def)


section \<open>Properties of the beacon engine\<close>

subsection \<open>Before the genesis time\<close>


lemma round_at_genesis: "0 < period \<Longrightarrow> round_at genesis period genesis = 1"
  by (simp add: round_at_def)





lemma round_1_at_genesis:
  "agg_store (agg_run toy_scheme (NewHandler toy_group 0 5) [Start, ClockAt 9, ClockAt 10])
     = [toy_beacon_1]"
  by (simp add: agg_run_def NewHandler_def toy_group_def toy_scheme_def toy_beacon_1_def
      on_clock_def on_tick_def agg_sign_def try_recover_def agg_head_def store_Last_def
      current_round_def round_at_def cache_add_def cache_count_def Let_def)


subsection \<open>Every stored beacon verifies\<close>

lemma store_Put_set: "store_Put s b = Inr s' \<Longrightarrow> set s' \<subseteq> insert b (set s)"
proof (induction s arbitrary: s')
  case Nil
  then show ?case by auto
next
  case (Cons x xs)
  show ?case
  proof (cases "store_Put xs b")
    case (Inl e)
    with Cons.prems show ?thesis by (auto split: if_splits)
  next
    case (Inr xs')
    with Cons.IH [OF Inr] Cons.prems show ?thesis by (auto split: if_splits)
  qed
qed

lemma chain_verified_iff:
  "chain_verified sch h
     \<longleftrightarrow> (\<forall>b \<in> set (agg_store h). myCallBack sch (DistPublic (agg_group h)) b)"
  by (simp add: chain_verified_def list_all_iff)

lemma keeps_chain_refl: "keeps_chain sch h h"
  by (simp add: keeps_chain_def)

lemma keeps_chain_trans: "keeps_chain sch h h1 \<Longrightarrow> keeps_chain sch h1 h2 \<Longrightarrow> keeps_chain sch h h2"
  by (simp add: keeps_chain_def)

lemma keeps_chain_same_store:
  "agg_group h' = agg_group h \<Longrightarrow> agg_store h' = agg_store h \<Longrightarrow> keeps_chain sch h h'"
  by (simp add: keeps_chain_def chain_verified_def)

lemma keeps_chain_put:
  assumes "store_Put (agg_store h) b = Inr s'" and "myCallBack sch (DistPublic (agg_group h)) b"
    and "agg_group h' = agg_group h" and "agg_store h' = s'"
  shows "keeps_chain sch h h'"
  using store_Put_set [OF assms(1)] assms(2,3,4)
  by (auto simp: keeps_chain_def chain_verified_iff)

lemma try_recover_keeps: "keeps_chain sch h (try_recover sch h r)"
proof (cases "Threshold (agg_group h) \<le> cache_count (agg_cache h) r")
  case False
  then show ?thesis by (simp add: try_recover_def keeps_chain_refl)
next
  case True
  let ?pr = "fst (agg_head h)" and ?ps = "snd (agg_head h)"
  let ?msg = "Message sch ?ps ?pr r"
  show ?thesis
  proof (cases "Recover sch (DistPublic (agg_group h)) ?msg (agg_cache h r) (Threshold (agg_group h))")
    case None
    with True show ?thesis by (simp add: try_recover_def Let_def keeps_chain_refl)
  next
    case (Some sg)
    let ?b = "\<lparr>Round = r, PreviousRound = ?pr, PreviousSig = ?ps, Signature = sg\<rparr>"
    show ?thesis
    proof (cases "VerifyRecovered sch (DistPublic (agg_group h)) ?msg sg")
      case False
      with True Some show ?thesis by (simp add: try_recover_def Let_def keeps_chain_refl)
    next
      case verified: True
      then have ok: "myCallBack sch (DistPublic (agg_group h)) ?b"
        by (simp add: myCallBack_def)
      show ?thesis
      proof (cases "store_Put (agg_store h) ?b")
        case (Inl e)
        with True Some verified
        have "try_recover sch h r = h\<lparr>agg_state := Stopped\<rparr>"
          by (simp add: try_recover_def Let_def)
        then show ?thesis by (simp add: keeps_chain_same_store)
      next
        case (Inr s')
        with True Some verified
        have "try_recover sch h r = h\<lparr>agg_store := s', agg_cache := cache_evict r (agg_cache h)\<rparr>"
          by (simp add: try_recover_def Let_def)
        then show ?thesis
          using keeps_chain_put [OF Inr ok] by simp
      qed
    qed
  qed
qed

lemma agg_sign_keeps: "keeps_chain sch h (agg_sign sch h r)"
proof -
  let ?pr = "fst (agg_head h)" and ?ps = "snd (agg_head h)"
  let ?own = "Sign sch (agg_share h) (Message sch ?ps ?pr r)"
  let ?h1 = "h\<lparr>agg_cache := cache_add (Threshold (agg_group h)) (agg_cache h) r (agg_index h) ?own,
              agg_broadcast := agg_broadcast h @
                [\<lparr>bp_round = r, bp_previous_round = ?pr, bp_previous_sig = ?ps,
                  bp_index = agg_index h, bp_partial_sig = Some ?own\<rparr>]\<rparr>"
  have "keeps_chain sch h ?h1" by (simp add: keeps_chain_same_store)
  moreover have "keeps_chain sch ?h1 (try_recover sch ?h1 r)" by (rule try_recover_keeps)
  ultimately have "keeps_chain sch h (try_recover sch ?h1 r)" by (rule keeps_chain_trans)
  then show ?thesis by (simp add: agg_sign_def Let_def)
qed

lemma on_tick_keeps: "keeps_chain sch h (on_tick sch h r)"
proof (cases "fst (agg_head h) + 1 < r")
  case True
  then show ?thesis by (simp add: on_tick_def keeps_chain_same_store)
next
  case False
  have "keeps_chain sch h (h\<lparr>agg_state := Running, agg_round := r\<rparr>)"
    by (simp add: keeps_chain_same_store)
  from keeps_chain_trans [OF this agg_sign_keeps] False
  show ?thesis by (simp add: on_tick_def)
qed

lemma on_clock_keeps: "keeps_chain sch h (on_clock sch h t)"
  by (cases "agg_state h") (simp_all add: on_clock_def keeps_chain_refl on_tick_keeps)

lemma on_partial_keeps: "keeps_chain sch h (on_partial sch h pkt)"
proof -
  have add: "\<And>c. keeps_chain sch h (try_recover sch (h\<lparr>agg_cache := c\<rparr>) (agg_round h))"
  proof -
    fix c
    have "keeps_chain sch h (h\<lparr>agg_cache := c\<rparr>)" by (simp add: keeps_chain_same_store)
    from keeps_chain_trans [OF this try_recover_keeps]
    show "keeps_chain sch h (try_recover sch (h\<lparr>agg_cache := c\<rparr>) (agg_round h))" .
  qed
  show ?thesis
    by (simp add: on_partial_def Let_def keeps_chain_refl add split: option.split)
qed

lemma sync_chain_keeps: "keeps_chain sch h (sync_chain sch target bs h)"
proof (induction bs arbitrary: h)
  case Nil
  show ?case by (simp add: keeps_chain_refl)
next
  case (Cons b bs)
  show ?case
  proof (cases "target \<le> fst (agg_head h)")
    case True
    then show ?thesis by (simp add: keeps_chain_refl)
  next
    case False
    show ?thesis
    proof (cases "myCallBack sch (DistPublic (agg_group h)) b
        \<and> PreviousRound b = fst (agg_head h) \<and> PreviousSig b = snd (agg_head h)")
      case False
      with \<open>\<not> target \<le> fst (agg_head h)\<close> show ?thesis
        by (auto simp: keeps_chain_refl)
    next
      case True
      show ?thesis
      proof (cases "store_Put (agg_store h) b")
        case (Inl e)
        with True \<open>\<not> target \<le> fst (agg_head h)\<close> show ?thesis
          by (simp add: keeps_chain_same_store)
      next
        case (Inr s')
        from True have ok: "myCallBack sch (DistPublic (agg_group h)) b" by simp
        have "keeps_chain sch h (h\<lparr>agg_store := s'\<rparr>)"
          using keeps_chain_put [OF Inr ok] by simp
        from keeps_chain_trans [OF this Cons.IH] Inr True \<open>\<not> target \<le> fst (agg_head h)\<close>
        show ?thesis by simp
      qed
    qed
  qed
qed

lemma on_sync_keeps: "keeps_chain sch h (on_sync sch h target bs)"
proof (cases "agg_state h = CatchingUp")
  case False
  then show ?thesis by (simp add: on_sync_def keeps_chain_refl)
next
  case True
  let ?h' = "sync_chain sch target bs h"
  have s: "keeps_chain sch h ?h'" by (rule sync_chain_keeps)
  have r: "keeps_chain sch ?h' (?h'\<lparr>agg_state := Running\<rparr>)"
    by (simp add: keeps_chain_same_store)
  have a: "keeps_chain sch (?h'\<lparr>agg_state := Running\<rparr>)
      (agg_sign sch (?h'\<lparr>agg_state := Running\<rparr>) (agg_round ?h'))"
    by (rule agg_sign_keeps)
  from True s keeps_chain_trans [OF s r] keeps_chain_trans [OF keeps_chain_trans [OF s r] a]
  show ?thesis by (simp add: on_sync_def Let_def)
qed

lemma agg_step_keeps: "keeps_chain sch h (agg_step sch h inp)"
  by (cases inp)
    (simp_all add: keeps_chain_refl keeps_chain_same_store on_clock_keeps on_partial_keeps
      on_sync_keeps)

lemma agg_run_keeps: "keeps_chain sch h (agg_run sch h inputs)"
  unfolding agg_run_def
proof (induction inputs arbitrary: h)
  case Nil
  show ?case by (simp add: keeps_chain_refl)
next
  case (Cons inp inputs)
  from keeps_chain_trans [OF agg_step_keeps Cons.IH]
  show ?case by simp
qed

text \<open>
  Claim C1: every beacon with a round above 1 in the chain store of a node, whatever the
  node has gone through since it was created (ticks, partials of peers, syncs), has a
  signature that verifies under the group's distributed public key over the message
  \<open>H(previous_sig \<parallel> previous_round \<parallel> round)\<close>.
\<close>

theorem stored_beacons_verify:
  assumes "b \<in> set (agg_store (agg_run sch (NewHandler g i share) inputs))"
    and "1 < Round b"
  shows "VerifyRecovered sch (DistPublic g)
           (Message sch (PreviousSig b) (PreviousRound b) (Round b)) (Signature b)"
proof -
  let ?h = "NewHandler g i share"
  have "chain_verified sch ?h"
    by (simp add: chain_verified_def NewHandler_def)
  moreover have "keeps_chain sch ?h (agg_run sch ?h inputs)"
    by (rule agg_run_keeps)
  ultimately have "chain_verified sch (agg_run sch ?h inputs)"
    and "agg_group (agg_run sch ?h inputs) = g"
    by (simp_all add: keeps_chain_def NewHandler_def)
  with assms(1) have "myCallBack sch (DistPublic g) b"
    by (simp add: chain_verified_iff)
  then show ?thesis by (simp add: myCallBack_def)
qed


text \<open>
  The theorem on the toy group: the handler is started, the clock reaches the genesis
  time and then the next round; the store holds the beacons of rounds 1 and 2, and the
  beacon of round 2 verifies.
\<close>

lemma toy_run_store:
  "agg_store (agg_run toy_scheme (NewHandler toy_group 0 5) [Start, ClockAt 10, ClockAt 12])
     = [toy_beacon_1, toy_beacon_2]"
  by (simp add: agg_run_def NewHandler_def toy_group_def toy_scheme_def toy_beacon_1_def
      toy_beacon_2_def on_clock_def on_tick_def agg_sign_def try_recover_def agg_head_def
      store_Last_def current_round_def round_at_def cache_add_def cache_count_def
      cache_evict_def cache_K_def Let_def)

theorem stored_beacons_verify_witness:
  "toy_beacon_2 \<in> set (agg_store
       (agg_run toy_scheme (NewHandler toy_group 0 5) [Start, ClockAt 10, ClockAt 12]))
   \<and> 1 < Round toy_beacon_2
   \<and> VerifyRecovered toy_scheme (DistPublic toy_group)
        (Message toy_scheme (PreviousSig toy_beacon_2) (PreviousRound toy_beacon_2)
           (Round toy_beacon_2))
        (Signature toy_beacon_2)"
proof -
  have m: "toy_beacon_2 \<in> set (agg_store
       (agg_run toy_scheme (NewHandler toy_group 0 5) [Start, ClockAt 10, ClockAt 12]))"
    by (simp add: toy_run_store)
  have r: "1 < Round toy_beacon_2"
    by (simp add: toy_beacon_2_def)
  from stored_beacons_verify [OF m r] m r show ?thesis by simp
qed

text \<open>A beacon that does not verify is not taken from a peer during a sync.\<close>

lemma sync_refuses_forged_beacon:
  "agg_store (agg_run toy_scheme (NewHandler toy_group 0 5)
      [Catchup, SyncFrom 2 [toy_beacon_1, toy_beacon_2\<lparr>Signature := [0]\<rparr>]])
     = [toy_beacon_1]"
  by (simp add: agg_run_def NewHandler_def toy_group_def toy_scheme_def toy_beacon_1_def
      toy_beacon_2_def on_sync_def agg_head_def store_Last_def myCallBack_def Let_def)


end
